theory Spec2Isabelle
  imports Complex_Main "HOL-Library.Sublist" "HOL-Library.Char_ord"
    "HOL-Library.List_Lexorder" "HOL-Library.Multiset" "HOL-Library.AList"
begin

section \<open>Python values used by gyptest.py\<close>

text \<open>
  Python strings are modelled as \<^typ>\<open>string\<close> (lists of 8-bit characters; text outside
  ASCII is its UTF-8 encoding).  Strings are compared character by character
  (\<open>List_Lexorder\<close> over \<open>Char_ord\<close>), which is the order Python's \<open>sort\<close> and
  \<open>sorted\<close> use on \<open>str\<close>.  Python's unbounded integers are \<^typ>\<open>int\<close>, lengths and
  counters are \<^typ>\<open>nat\<close>.  A float is modelled by the rational number it denotes; the
  only floats of the program are clock readings and their differences, and no property
  below depends on the rounding of the subtraction.
\<close>

definition nl :: string where
  "nl = [CHR 0x0A]"

definition tab :: string where
  "tab = [CHR 0x09]"

definition digit_char :: "nat \<Rightarrow> char" where
  "digit_char k = ''0123456789'' ! (k mod 10)"

text \<open>\<open>str(n)\<close> for a non-negative integer: its decimal digits.\<close>

fun str_nat :: "nat \<Rightarrow> string" where
  "str_nat n = (if n < 10 then [digit_char n] else str_nat (n div 10) @ [digit_char n])"

declare str_nat.simps [simp del]

definition str_int :: "int \<Rightarrow> string" where
  "str_int i = (if i < 0 then ''-'' @ str_nat (nat (- i)) else str_nat (nat i))"

text \<open>
  The conversion \<open>%.3f\<close>: the value rounded to a multiple of \<open>1/1000\<close> (ties to the
  even neighbour, as the correctly rounded conversion of the C library does), written as
  the integer part, a point and exactly three digits.
\<close>

definition round_half_even :: "rat \<Rightarrow> nat" where
  "round_half_even m =
     (let f = \<lfloor>m\<rfloor>; d = m - of_int f in
      nat (if d < 1 / 2 then f else if 1 / 2 < d then f + 1 else if even f then f else f + 1))"

definition fmt_3f :: "rat \<Rightarrow> string" where
  "fmt_3f x =
     (let n = round_half_even (\<bar>x\<bar> * 1000) in
      (if x < 0 then ''-'' else '''') @ str_nat (n div 1000) @ ''.'' @
      [digit_char (n div 100), digit_char (n div 10), digit_char n])"

text \<open>
  The operator \<open>%\<close> on a format string and its arguments, for the three conversions
  gyptest.py uses: \<open>%d\<close>, \<open>%s\<close> and \<open>%.3f\<close>.  Python raises \<open>TypeError\<close> when a
  conversion meets no argument of its kind; every format of gyptest.py is a literal
  applied to arguments of the right kinds, so that case never arises in the program and
  the function copies such a conversion unchanged.
\<close>

datatype fmt_arg = D int | S string | F rat

fun py_format :: "string \<Rightarrow> fmt_arg list \<Rightarrow> string" where
  "py_format [] args = []"
| "py_format [c] args = [c]"
| "py_format (c # d # cs) args =
     (if c = CHR ''%'' \<and> d = CHR ''d'' then
        (case args of
           D n # rest \<Rightarrow> str_int n @ py_format cs rest
         | _ \<Rightarrow> c # py_format (d # cs) args)
      else if c = CHR ''%'' \<and> d = CHR ''s'' then
        (case args of
           S s # rest \<Rightarrow> s @ py_format cs rest
         | _ \<Rightarrow> c # py_format (d # cs) args)
      else if c = CHR ''%'' \<and> d = CHR ''.'' \<and> take 2 cs = ''3f'' then
        (case args of
           F x # rest \<Rightarrow> fmt_3f x @ py_format (drop 2 cs) rest
         | _ \<Rightarrow> c # py_format (d # cs) args)
      else c # py_format (d # cs) args)"

text \<open>\<open>sep.join(xs)\<close>.\<close>

fun py_join :: "string \<Rightarrow> string list \<Rightarrow> string" where
  "py_join sep [] = []"
| "py_join sep [x] = x"
| "py_join sep (x # y # ys) = x @ sep @ py_join sep (y # ys)"

text \<open>\<open>s.split(sep)\<close> for a one-character separator: the pieces between the separators.\<close>

fun py_split :: "char \<Rightarrow> string \<Rightarrow> string list" where
  "py_split sep [] = [[]]"
| "py_split sep (c # cs) =
     (if c = sep then [] # py_split sep cs
      else (case py_split sep cs of
              [] \<Rightarrow> [[c]]
            | p # ps \<Rightarrow> (c # p) # ps))"

text \<open>
  \<open>s.strip()\<close> and \<open>s.splitlines()\<close>.  A character of a text is one to four bytes
  here, its UTF-8 encoding.  \<open>space_codes\<close> holds the encodings of the characters that
  Python 3 counts as whitespace: the ASCII ones (tab, line feed, vertical tab, form feed,
  carriage return, the separators \<open>1C\<close> to \<open>1F\<close>, space) and \<open>U+0085\<close>, \<open>U+00A0\<close>,
  \<open>U+1680\<close>, \<open>U+2000\<close> to \<open>U+200A\<close>, \<open>U+2028\<close>, \<open>U+2029\<close>, \<open>U+202F\<close>, \<open>U+205F\<close>
  and \<open>U+3000\<close>.  \<open>linebreak_codes\<close> holds the line boundaries of \<open>splitlines\<close>:
  carriage return with line feed (first, so that the pair is one boundary), line feed,
  vertical tab, form feed, carriage return, \<open>1C\<close>, \<open>1D\<close>, \<open>1E\<close>, \<open>U+0085\<close>, \<open>U+2028\<close>
  and \<open>U+2029\<close>.  In UTF-8 a code can only start where a character starts, and a code
  that ends a text is its last character, so the codes are looked for as prefixes and
  as suffixes of the bytes.
\<close>

definition space_codes :: "string list" where
  "space_codes =
     [[CHR 0x09], [CHR 0x0A], [CHR 0x0B], [CHR 0x0C], [CHR 0x0D],
      [CHR 0x1C], [CHR 0x1D], [CHR 0x1E], [CHR 0x1F], [CHR 0x20],
      [CHR 0xC2, CHR 0x85], [CHR 0xC2, CHR 0xA0],
      [CHR 0xE1, CHR 0x9A, CHR 0x80],
      [CHR 0xE2, CHR 0x80, CHR 0x80], [CHR 0xE2, CHR 0x80, CHR 0x81],
      [CHR 0xE2, CHR 0x80, CHR 0x82], [CHR 0xE2, CHR 0x80, CHR 0x83],
      [CHR 0xE2, CHR 0x80, CHR 0x84], [CHR 0xE2, CHR 0x80, CHR 0x85],
      [CHR 0xE2, CHR 0x80, CHR 0x86], [CHR 0xE2, CHR 0x80, CHR 0x87],
      [CHR 0xE2, CHR 0x80, CHR 0x88], [CHR 0xE2, CHR 0x80, CHR 0x89],
      [CHR 0xE2, CHR 0x80, CHR 0x8A],
      [CHR 0xE2, CHR 0x80, CHR 0xA8], [CHR 0xE2, CHR 0x80, CHR 0xA9],
      [CHR 0xE2, CHR 0x80, CHR 0xAF],
      [CHR 0xE2, CHR 0x81, CHR 0x9F],
      [CHR 0xE3, CHR 0x80, CHR 0x80]]"

definition linebreak_codes :: "string list" where
  "linebreak_codes =
     [[CHR 0x0D, CHR 0x0A],
      [CHR 0x0A], [CHR 0x0B], [CHR 0x0C], [CHR 0x0D], [CHR 0x1C], [CHR 0x1D], [CHR 0x1E],
      [CHR 0xC2, CHR 0x85],
      [CHR 0xE2, CHR 0x80, CHR 0xA8], [CHR 0xE2, CHR 0x80, CHR 0xA9]]"

text \<open>The length of the first code of a list that a string starts with, 0 when it
  starts with none.\<close>

definition leading_code :: "string list \<Rightarrow> string \<Rightarrow> nat" where
  "leading_code codes s =
     (case filter (\<lambda>p. prefix p s) codes of [] \<Rightarrow> 0 | p # _ \<Rightarrow> length p)"

fun lstrip_codes :: "string list \<Rightarrow> string \<Rightarrow> string" where
  "lstrip_codes codes [] = []"
| "lstrip_codes codes (c # cs) =
     (if leading_code codes (c # cs) = 0 then c # cs
      else lstrip_codes codes (drop (leading_code codes (c # cs) - 1) cs))"

definition py_strip :: "string \<Rightarrow> string" where
  "py_strip s = rev (lstrip_codes (map rev space_codes) (rev (lstrip_codes space_codes s)))"

fun splitlines_from :: "string \<Rightarrow> string \<Rightarrow> string list" where
  "splitlines_from cur [] = (if cur = [] then [] else [cur])"
| "splitlines_from cur (c # cs) =
     (if leading_code linebreak_codes (c # cs) = 0 then splitlines_from (cur @ [c]) cs
      else cur # splitlines_from [] (drop (leading_code linebreak_codes (c # cs) - 1) cs))"

definition py_splitlines :: "string \<Rightarrow> string list" where
  "py_splitlines s = splitlines_from [] s"

section \<open>The host: file system, clock, child processes\<close>

text \<open>
  What gyptest.py asks of the interpreter and the operating system is collected in a
  record of the host's answers; every property below holds for each host.  The functions
  of \<open>os.path\<close> differ between platforms and are taken as they are.  \<open>os_walk\<close> is the
  list of the triples \<open>(root, dirs, files)\<close> that \<open>os.walk\<close> yields; \<open>time_time\<close> is the
  \<open>n\<close>-th reading of the clock; \<open>popen\<close> is the child process started as the \<open>n\<close>-th one
  with a command, an environment and a flag telling whether its standard error is piped:
  its return code and the texts that \<open>communicate\<close> returns for its standard output
  and its standard error.
  \<open>os_chdir\<close> is the working directory after \<open>os.chdir\<close>, or \<open>None\<close> when \<open>os.chdir\<close>
  raises \<open>OSError\<close> (the directory is missing, is no directory or may not be entered).
  Starting a child, decoding its output and writing to the two output streams are taken
  to succeed: a run in which one of them raises is outside the model.
\<close>

record host =
  sys_platform :: string
  sys_executable :: string
  python_version :: string
  stdout_isatty :: bool
  os_pathsep :: string
  path_join :: "string \<Rightarrow> string \<Rightarrow> string"
  path_basename :: "string \<Rightarrow> string"
  path_normpath :: "string \<Rightarrow> string"
  path_abspath :: "string \<Rightarrow> string \<Rightarrow> string"
  path_isdir :: "string \<Rightarrow> string \<Rightarrow> bool"
  os_walk :: "string \<Rightarrow> string \<Rightarrow> (string \<times> string list \<times> string list) list"
  os_chdir :: "string \<Rightarrow> string \<Rightarrow> string option"
  time_time :: "nat \<Rightarrow> rat"
  popen :: "nat \<Rightarrow> string list \<Rightarrow> (string \<times> string) list \<Rightarrow> bool \<Rightarrow> int \<times> string \<times> string"
  platform_info :: "string list"
  str_list :: "string list \<Rightarrow> string"

text \<open>
  The state outside the program's variables: what has been written to the two output
  streams (one element per call of \<open>print\<close> or \<open>write\<close>), \<open>os.environ\<close> (a dictionary,
  kept as an association list in insertion order), the working directory, the number of
  clock readings so far, and the history of the child processes that were run.
\<close>

record proc =
  p_cmd :: "string list"
  p_env :: "(string \<times> string) list"
  p_piped :: bool
  p_returncode :: int
  p_stdout :: string
  p_stderr :: "string option"

record world =
  w_stdout :: "string list"
  w_stderr :: "string list"
  w_environ :: "(string \<times> string) list"
  w_cwd :: string
  w_ticks :: nat
  w_procs :: "proc list"

text \<open>\<open>print(a, b, ...)\<close>: the arguments joined by a space, then a newline.\<close>

definition py_print :: "string list \<Rightarrow> world \<Rightarrow> world" where
  "py_print xs w = w\<lparr>w_stdout := w_stdout w @ [py_join '' '' xs @ nl]\<rparr>"

definition py_eprint :: "string list \<Rightarrow> world \<Rightarrow> world" where
  "py_eprint xs w = w\<lparr>w_stderr := w_stderr w @ [py_join '' '' xs @ nl]\<rparr>"

definition stderr_write :: "string \<Rightarrow> world \<Rightarrow> world" where
  "stderr_write s w = w\<lparr>w_stderr := w_stderr w @ [s]\<rparr>"

definition read_clock :: "host \<Rightarrow> world \<Rightarrow> rat \<times> world" where
  "read_clock h w = (time_time h (w_ticks w), w\<lparr>w_ticks := Suc (w_ticks w)\<rparr>)"

text \<open>The exceptions that nothing catches: \<open>KeyError\<close> with its key, \<open>OSError\<close> with the
  path it is raised for.\<close>

datatype py_error = KeyError string | OSError string

section \<open>Test discovery\<close>

definition is_test_name :: "string \<Rightarrow> bool" where
  "is_test_name f \<longleftrightarrow> prefix ''gyptest'' f \<and> suffix ''.py'' f"

definition find_all_gyptest_files :: "host \<Rightarrow> string \<Rightarrow> string \<Rightarrow> string list" where
  "find_all_gyptest_files h cwd directory =
     sort (concat (map (\<lambda>(root, dirs, files). map (path_join h root) (filter is_test_name files))
                       (os_walk h cwd directory)))"

text \<open>
  A directory tree, to say what \<open>os.walk\<close> lists: the names of the files of a directory
  and its subdirectories by name.  \<open>tree_walk\<close> is the top-down traversal of \<open>os.walk\<close>;
  \<open>in_tree join base D d f\<close> says that the tree \<open>D\<close>, whose top directory has the path \<open>base\<close>, has
  a file named \<open>f\<close> in its directory of path \<open>d\<close>.
\<close>

datatype dirtree = Dir (dir_files: "string list") (dir_subdirs: "(string \<times> dirtree) list")

fun tree_walk :: "(string \<Rightarrow> string \<Rightarrow> string) \<Rightarrow> string \<Rightarrow> dirtree \<Rightarrow>
    (string \<times> string list \<times> string list) list" where
  "tree_walk join base (Dir fs subs) =
     (base, map fst subs, fs) # concat (map (\<lambda>p. tree_walk join (join base (fst p)) (snd p)) subs)"

inductive in_tree :: "(string \<Rightarrow> string \<Rightarrow> string) \<Rightarrow> string \<Rightarrow> dirtree \<Rightarrow> string \<Rightarrow> string \<Rightarrow> bool"
  for join :: "string \<Rightarrow> string \<Rightarrow> string" where
  here: "f \<in> set fs \<Longrightarrow> in_tree join base (Dir fs subs) base f"
| below: "(n, t) \<in> set subs \<Longrightarrow> in_tree join (join base n) t d f \<Longrightarrow>
     in_tree join base (Dir fs subs) d f"

section \<open>The runner\<close>

record runner =
  formats :: "string list"
  tests :: "string list"
  verbose :: bool
  gyp_options :: "string list"
  failures :: "string list"
  num_tests :: nat
  isatty :: bool
  env :: "(string \<times> string) list"
  hpos :: nat
  took :: rat

definition Runner_init :: "host \<Rightarrow> string list \<Rightarrow> string list \<Rightarrow> string list \<Rightarrow> bool \<Rightarrow>
    world \<Rightarrow> runner" where
  "Runner_init h fmts ts opts verb w =
     \<lparr>formats = fmts, tests = ts, verbose = verb, gyp_options = opts, failures = [],
      num_tests = length fmts * length ts,
      isatty = (stdout_isatty h \<and> \<not> verb),
      env = w_environ w, hpos = 0, took = 0\<rparr>"

text \<open>
  \<open>run_test\<close> returns the format of the status line, the elapsed time and the two
  trimmed outputs.  Without a pipe \<open>communicate\<close> returns \<open>None\<close> for standard error.
\<close>

definition run_test :: "host \<Rightarrow> string \<Rightarrow> string \<Rightarrow> runner \<times> world \<Rightarrow>
    (string \<times> rat \<times> string \<times> string) \<times> runner \<times> world" where
  "run_test h test fmt = (\<lambda>(r, w).
     (let cmd = [sys_executable h, test] @ gyp_options r;
          r1 = r\<lparr>env := AList.update ''TESTGYP_FORMAT'' fmt (env r)\<rparr>;
          piped = (\<not> verbose r1);
          r2 = (if verbose r1 then r1\<lparr>env := AList.update ''TESTCMD_VERBOSE'' ''1'' (env r1)\<rparr>
                else r1);
          (start, w1) = read_clock h w;
          (code, out_raw, err_raw) = popen h (length (w_procs w1)) cmd (env r2) piped;
          p = \<lparr>p_cmd = cmd, p_env = env r2, p_piped = piped, p_returncode = code,
               p_stdout = out_raw, p_stderr = (if piped then Some err_raw else None)\<rparr>;
          w2 = w1\<lparr>w_procs := w_procs w1 @ [p]\<rparr>;
          (now, w3) = read_clock h w2;
          took = now - start;
          stdout = py_strip (p_stdout p);
          stderr = py_strip (case p_stderr p of None \<Rightarrow> [] | Some e \<Rightarrow> e)
      in if p_returncode p = 2 then
           ((''not ok %d # skip %s'', took, stdout, stderr), r2, w3)
         else if p_returncode p \<noteq> 0 then
           ((''not ok %d %s'', took, stdout, stderr),
            r2\<lparr>failures := failures r2 @ [py_format ''(%s) %s'' [S test, S fmt]]\<rparr>, w3)
         else
           ((''ok %d %s'', took, stdout, stderr), r2, w3)))"

text \<open>The body of the loop of \<open>run\<close>, for the pair \<open>(test, fmt)\<close> numbered \<open>i\<close>.\<close>

definition run_body :: "host \<Rightarrow> nat \<Rightarrow> string \<Rightarrow> string \<Rightarrow> runner \<times> world \<Rightarrow> runner \<times> world" where
  "run_body h i test fmt = (\<lambda>(r, w).
     (let w1 = (if verbose r then py_print [py_format ''# %s %s'' [S test, S fmt]] w else w);
          ((res, took, stdout, stderr), r2, w2) = run_test h test fmt (r, w1);
          w3 = py_print [py_format res [D (int i), S (test @ '' '' @ fmt)]] w2;
          w4 = py_print [''  ---''] w3;
          w5 = py_print [py_format ''  duration_ms: %.3f'' [F took]] w4;
          w6 = (if length stdout \<noteq> 0 then
                  foldl (\<lambda>v l. py_print [''   '', l] v) (py_print [''  stdout: |-''] w5)
                    (py_splitlines stdout)
                else w5);
          w7 = (if length stderr \<noteq> 0 \<and> stderr \<noteq> ''PASSED'' then
                  foldl (\<lambda>v l. py_print [''   '', l] v) (py_print [''  stderr: |-''] w6)
                    (py_splitlines stderr)
                else w6)
      in (r2, py_print [''  ...''] w7)))"

fun run_loop :: "host \<Rightarrow> nat \<Rightarrow> (string \<times> string) list \<Rightarrow> runner \<times> world \<Rightarrow> runner \<times> world" where
  "run_loop h i [] rw = rw"
| "run_loop h i ((test, fmt) # ps) rw = run_loop h (Suc i) ps (run_body h i test fmt rw)"

definition run :: "host \<Rightarrow> runner \<times> world \<Rightarrow> runner \<times> world" where
  "run h = (\<lambda>(r, w).
     (let w1 = py_print [''TAP version 13''] w;
          w2 = py_print [py_format ''0..%d'' [D (int (num_tests r))]] w1;
          (run_start, w3) = read_clock h w2;
          pairs = concat (map (\<lambda>t. map (\<lambda>f. (t, f)) (formats r)) (tests r));
          (r4, w4) = run_loop h 1 pairs (r, w3);
          (now, w5) = read_clock h w4
      in (r4\<lparr>took := now - run_start\<rparr>, w5)))"

definition print_results :: "runner \<Rightarrow> world \<Rightarrow> world" where
  "print_results r w =
     (let num_failures = length (failures r);
          w1 = (if num_failures \<noteq> 0 then
                  (let v1 = py_print [] w;
                       v2 = (if num_failures = 1 then py_print [''Failed the following test:''] v1
                             else py_print [py_format ''Failed the following %d tests:''
                                              [D (int num_failures)]] v1);
                       v3 = py_print [tab @ py_join (nl @ tab) (sort (failures r))] v2
                   in py_print [] v3)
                else w);
          w2 = py_print [py_format ''Ran %d tests in %.3fs, %d failed.''
                           [D (int (num_tests r)), F (took r), D (int num_failures)]] w1
      in py_print [] w2)"

section \<open>The command line front end\<close>

text \<open>
  \<open>main\<close> is modelled from the parsed arguments on (line 47); \<open>argparse\<close> itself is not
  part of the model.  A run of \<open>main\<close> ends by \<open>return\<close>, by \<open>sys.exit\<close> or by an
  exception that nothing catches; \<open>exit_status\<close> is the status of the process under
  \<open>sys.exit(main())\<close>, which is 1 for an uncaught exception.
\<close>

record args =
  arg_all :: bool
  arg_chdir :: "string option"
  arg_format :: string
  arg_gyp_option :: "string list"
  arg_list :: bool
  arg_no_exec :: bool
  arg_path :: "string list"
  arg_quiet :: bool
  arg_verbose :: bool
  arg_tests :: "string list"

datatype exit = Return int | SysExit int | Raised py_error

fun exit_status :: "exit \<Rightarrow> int" where
  "exit_status (Return n) = n"
| "exit_status (SysExit n) = n"
| "exit_status (Raised e) = 1"

text \<open>Lines 47 to 53: \<open>--chdir\<close> and \<open>--path\<close>.  \<open>os.chdir\<close> raises \<open>OSError\<close> when the
  directory cannot be entered, and leaves the working directory as it is then; reading
  \<open>os.environ['PATH']\<close> raises \<open>KeyError\<close> when the variable is not set.\<close>

definition change_dir :: "host \<Rightarrow> args \<Rightarrow> world \<Rightarrow> py_error option \<times> world" where
  "change_dir h a w =
     (case arg_chdir a of
        None \<Rightarrow> (None, w)
      | Some d \<Rightarrow>
          if d = [] then (None, w)
          else (case os_chdir h (w_cwd w) d of
                  None \<Rightarrow> (Some (OSError d), w)
                | Some cwd \<Rightarrow> (None, w\<lparr>w_cwd := cwd\<rparr>)))"

definition extend_path :: "host \<Rightarrow> args \<Rightarrow> world \<Rightarrow> py_error option \<times> world" where
  "extend_path h a w =
     (if arg_path a \<noteq> [] then
        (let extra_path = map (path_abspath h (w_cwd w)) (arg_path a);
             extra_path = py_join (os_pathsep h) extra_path
         in case map_of (w_environ w) ''PATH'' of
              None \<Rightarrow> (Some (KeyError ''PATH''), w)
            | Some old \<Rightarrow>
                (None, w\<lparr>w_environ :=
                   AList.update ''PATH'' (extra_path @ os_pathsep h @ old) (w_environ w)\<rparr>))
      else (None, w))"

text \<open>Lines 61 to 69: the loop over the positional arguments.  It ends either with the
  list of tests or, at the first argument that is neither a directory nor a test name,
  with \<open>sys.exit(1)\<close> after a line on standard error.\<close>

fun resolve_tests :: "host \<Rightarrow> string list \<Rightarrow> string list \<Rightarrow> world \<Rightarrow> exit \<times> world + string list" where
  "resolve_tests h [] found w = Inr found"
| "resolve_tests h (arg # rest) found w =
     (if path_isdir h (w_cwd w) arg then
        resolve_tests h rest
          (found @ find_all_gyptest_files h (w_cwd w) (path_normpath h arg)) w
      else if \<not> is_test_name (path_basename h arg) then
        Inl (SysExit 1, py_eprint [arg, ''is not a valid gyp test name.''] w)
      else resolve_tests h rest (found @ [arg]) w)"

text \<open>Lines 118 to 148.  The lines of the platform's branch are the host's
  (\<open>platform_info\<close>); every exception of those branches is caught there.\<close>

definition print_configuration_info :: "host \<Rightarrow> world \<Rightarrow> py_error option \<times> world" where
  "print_configuration_info h w =
     (let w1 = py_print [''Test configuration:''] w;
          w2 = (if sys_platform h = ''darwin'' then
                  foldl (\<lambda>v l. py_print [l] v) w1 (platform_info h)
                else if sys_platform h = ''win32'' then
                  foldl (\<lambda>v l. py_print [l] v) w1 (platform_info h)
                else if sys_platform h \<in> set [''linux'', ''linux2''] then
                  foldl (\<lambda>v l. py_print [l] v) w1 (platform_info h)
                else w1);
          w3 = py_print [py_format ''  Python %s %s''
                           [S (sys_executable h), S (python_version h)]] w2
      in case map_of (w_environ w3) ''PYTHONPATH'' of
           None \<Rightarrow> (Some (KeyError ''PYTHONPATH''), w3)
         | Some p \<Rightarrow> (None, py_print [] (py_print [py_format ''  PYTHONPATH=%s'' [S p]] w3)))"

text \<open>Lines 84 to 100: the formats to run.  The table is a dictionary literal indexed
  by \<open>sys.platform\<close>; indexing raises \<open>KeyError\<close> for a key that is not in it.\<close>

definition platform_formats :: "(string \<times> string list) list" where
  "platform_formats =
     [(''aix5'', [''make'']),
      (''freebsd7'', [''make'']),
      (''freebsd8'', [''make'']),
      (''openbsd5'', [''make'']),
      (''cygwin'', [''msvs'']),
      (''win32'', [''msvs'', ''ninja'']),
      (''linux'', [''make'', ''ninja'']),
      (''linux2'', [''make'', ''ninja'']),
      (''linux3'', [''make'', ''ninja'']),
      (''darwin'', [''make'', ''ninja'', ''xcode''])]"

definition format_list_of :: "host \<Rightarrow> args \<Rightarrow> py_error + string list" where
  "format_list_of h a =
     (if arg_format a \<noteq> [] then Inr (py_split CHR '','' (arg_format a))
      else (case map_of platform_formats (sys_platform h) of
              None \<Rightarrow> Inl (KeyError (sys_platform h))
            | Some fs \<Rightarrow> Inr fs))"

definition main :: "host \<Rightarrow> args \<Rightarrow> world \<Rightarrow> exit \<times> world" where
  "main h a w =
     (case change_dir h a w of
        (Some e, w1) \<Rightarrow> (Raised e, w1)
      | (None, w1) \<Rightarrow>
     (case extend_path h a w1 of
        (Some e, w2) \<Rightarrow> (Raised e, w2)
      | (None, w2) \<Rightarrow>
      if arg_tests a = [] \<and> \<not> arg_all a then
        (Return 1, stderr_write (''Specify -a to get all tests.'' @ nl) w2)
      else
      let args_tests = (if arg_tests a = [] then [''test''] else arg_tests a) in
      case resolve_tests h args_tests [] w2 of
        Inl stop \<Rightarrow> stop
      | Inr test_files \<Rightarrow>
      if arg_list a then (SysExit 0, foldl (\<lambda>v test. py_print [test] v) w2 test_files)
      else
      let w3 = w2\<lparr>w_environ :=
                 AList.update ''PYTHONPATH'' (path_abspath h (w_cwd w2) ''test/lib'')
                   (w_environ w2)\<rparr> in
      case (if arg_verbose a then print_configuration_info h w3 else (None, w3)) of
        (Some e, w4) \<Rightarrow> (Raised e, w4)
      | (None, w4) \<Rightarrow>
      let w5 = (if arg_gyp_option a \<noteq> [] \<and> \<not> arg_quiet a then
                  py_print [py_format (''Extra Gyp options: %s'' @ nl)
                              [S (str_list h (arg_gyp_option a))]] w4
                else w4) in
      case format_list_of h a of
        Inl e \<Rightarrow> (Raised e, w5)
      | Inr format_list \<Rightarrow>
      let gyp_options = concat (map (\<lambda>option. [''-G'', option]) (arg_gyp_option a));
          runner = Runner_init h format_list test_files gyp_options (arg_verbose a) w5;
          (runner1, w6) = run h (runner, w5);
          w7 = (if \<not> arg_quiet a then print_results runner1 w6 else w6)
      in if failures runner1 \<noteq> [] then (Return 1, w7) else (Return 0, w7)))"

section \<open>A host and inputs for the examples\<close>

text \<open>
  The examples run the program on a POSIX host: \<open>os.path.join\<close> and
  \<open>os.path.basename\<close> of \<open>posixpath\<close>, a directory \<open>test\<close> holding \<open>example_tree\<close>,
  no directory \<open>/nonexistent\<close>,
  a clock that advances by an eighth of a second per reading, and children that exit
  with 0 and write nothing unless an example says otherwise.
\<close>

definition posix_join :: "string \<Rightarrow> string \<Rightarrow> string" where
  "posix_join a b =
     (if prefix ''/'' b then b
      else if a = [] \<or> suffix ''/'' a then a @ b
      else a @ ''/'' @ b)"

definition posix_basename :: "string \<Rightarrow> string" where
  "posix_basename p = rev (takeWhile (\<lambda>c. c \<noteq> CHR ''/'') (rev p))"

definition example_tree :: dirtree where
  "example_tree =
     Dir [''README'', ''gyptest-top.py'']
       [(''sub'', Dir [''gyptest-b.py'', ''gyptest-b.pyc'', ''mygyptest.py'', ''Gyptest-c.py''] []),
        (''lib'', Dir [''gyptest-a.py''] [(''deep'', Dir [''gyptest.py''] [])])]"

definition example_host :: host where
  "example_host =
     \<lparr>sys_platform = ''linux'', sys_executable = ''/usr/bin/python'',
      python_version = ''3.9.0'', stdout_isatty = False, os_pathsep = '':'',
      path_join = posix_join, path_basename = posix_basename,
      path_normpath = (\<lambda>p. p), path_abspath = (\<lambda>cwd p. posix_join cwd p),
      path_isdir = (\<lambda>cwd p. p = ''test''),
      os_walk = (\<lambda>cwd d. if d = ''test'' then tree_walk posix_join d example_tree else []),
      os_chdir = (\<lambda>cwd d. if d = ''/nonexistent'' then None else Some (posix_join cwd d)),
      time_time = (\<lambda>n. of_nat n / 8),
      popen = (\<lambda>n cmd e piped. (0, [], [])),
      platform_info = [],
      str_list = (\<lambda>xs. ''['' @ py_join '', '' (map (\<lambda>x. [CHR 0x27] @ x @ [CHR 0x27]) xs) @ '']'')\<rparr>"

definition example_world :: world where
  "example_world =
     \<lparr>w_stdout = [], w_stderr = [], w_environ = [(''PATH'', ''/bin'')], w_cwd = ''/src'',
      w_ticks = 0, w_procs = []\<rparr>"

definition example_args :: args where
  "example_args =
     \<lparr>arg_all = False, arg_chdir = None, arg_format = [], arg_gyp_option = [],
      arg_list = False, arg_no_exec = False, arg_path = [], arg_quiet = False,
      arg_verbose = False, arg_tests = []\<rparr>"

text \<open>Children for the examples: the first passes, the second skips, the third and the
  fourth fail; they write to both streams.\<close>

definition example_children :: "nat \<Rightarrow> string list \<Rightarrow> (string \<times> string) list \<Rightarrow> bool \<Rightarrow>
    int \<times> string \<times> string" where
  "example_children n cmd e piped =
     (if n = 0 then (0, '' built'' @ nl @ ''linked'' @ nl, ''PASSED'' @ nl)
      else if n = 1 then (2, [], ''no ninja'' @ nl)
      else if n = 2 then (1, ''boom'' @ nl, [])
      else (- 9, [], []))"

section \<open>The report as the specification describes it\<close>

text \<open>
  These definitions follow the words of the specification (section 4.5), not the code:
  the status line of a result, the metadata block after it, and the record of one pair
  as a function of the child process that was run for it and of the time it took.  The
  theorems below compare what \<open>run\<close> prints with them.
\<close>

definition spec_status_line :: "int \<Rightarrow> nat \<Rightarrow> string \<Rightarrow> string \<Rightarrow> string" where
  "spec_status_line code i test fmt =
     (if code = 0 then ''ok '' @ str_nat i @ '' '' @ test @ '' '' @ fmt
      else if code = 2 then ''not ok '' @ str_nat i @ '' # skip '' @ test @ '' '' @ fmt
      else ''not ok '' @ str_nat i @ '' '' @ test @ '' '' @ fmt) @ nl"

definition spec_literal_block :: "string \<Rightarrow> string \<Rightarrow> string list" where
  "spec_literal_block name txt =
     (''  '' @ name @ '': |-'' @ nl) # map (\<lambda>l. ''    '' @ l @ nl) (py_splitlines txt)"

definition spec_metadata :: "rat \<Rightarrow> string \<Rightarrow> string \<Rightarrow> string list" where
  "spec_metadata t out err =
     [''  ---'' @ nl, ''  duration_ms: '' @ fmt_3f t @ nl] @
     (if out \<noteq> [] then spec_literal_block ''stdout'' out else []) @
     (if err \<noteq> [] \<and> err \<noteq> ''PASSED'' then spec_literal_block ''stderr'' err else []) @
     [''  ...'' @ nl]"

definition captured_stdout :: "proc \<Rightarrow> string" where
  "captured_stdout p = py_strip (p_stdout p)"

definition captured_stderr :: "proc \<Rightarrow> string" where
  "captured_stderr p = py_strip (case p_stderr p of None \<Rightarrow> [] | Some e \<Rightarrow> e)"

definition spec_progress :: "bool \<Rightarrow> string \<times> string \<Rightarrow> string list" where
  "spec_progress verb pair = (if verb then [''# '' @ fst pair @ '' '' @ snd pair @ nl] else [])"

definition spec_record :: "nat \<Rightarrow> string \<times> string \<Rightarrow> proc \<Rightarrow> rat \<Rightarrow> string list" where
  "spec_record i pair p t =
     spec_status_line (p_returncode p) i (fst pair) (snd pair) #
     spec_metadata t (captured_stdout p) (captured_stderr p)"

definition spec_failed :: "proc \<Rightarrow> bool" where
  "spec_failed p \<longleftrightarrow> p_returncode p \<noteq> 0 \<and> p_returncode p \<noteq> 2"

definition spec_failure_id :: "string \<times> string \<Rightarrow> string" where
  "spec_failure_id pair = ''('' @ fst pair @ '') '' @ snd pair"

text \<open>The time between the \<open>n\<close>-th reading of the clock and the next one.\<close>

definition elapsed :: "host \<Rightarrow> nat \<Rightarrow> rat" where
  "elapsed h n = time_time h (Suc n) - time_time h n"

text \<open>The list of tests the loop of lines 62 to 69 runs over, and the arguments it
  rejects.\<close>

definition effective_tests :: "args \<Rightarrow> string list" where
  "effective_tests a = (if arg_tests a = [] then [''test''] else arg_tests a)"

definition invalid_test_arg :: "host \<Rightarrow> string \<Rightarrow> string \<Rightarrow> bool" where
  "invalid_test_arg h cwd arg \<longleftrightarrow> \<not> path_isdir h cwd arg \<and> \<not> is_test_name (path_basename h arg)"

text \<open>The child process that \<open>run_test\<close> starts for a pair (lines 191 to 203): its
  environment, and its entry in the history when \<open>n\<close> children ran before it.\<close>

definition child_env :: "runner \<Rightarrow> string \<Rightarrow> (string \<times> string) list" where
  "child_env r fmt =
     (if verbose r then
        AList.update ''TESTCMD_VERBOSE'' ''1'' (AList.update ''TESTGYP_FORMAT'' fmt (env r))
      else AList.update ''TESTGYP_FORMAT'' fmt (env r))"

definition child_of :: "host \<Rightarrow> runner \<Rightarrow> nat \<Rightarrow> string \<Rightarrow> string \<Rightarrow> proc" where
  "child_of h r n test fmt =
     (let cmd = [sys_executable h, test] @ gyp_options r;
          c = popen h n cmd (child_env r fmt) (\<not> verbose r)
      in \<lparr>p_cmd = cmd, p_env = child_env r fmt, p_piped = (\<not> verbose r),
          p_returncode = fst c, p_stdout = fst (snd c),
          p_stderr = (if verbose r then None else Some (snd (snd c)))\<rparr>)"

text \<open>The children that the loop of \<open>run\<close> starts for a list of pairs, in order, when
  \<open>n\<close> children ran before; each iteration leaves its format in the runner's
  environment.\<close>

fun loop_children :: "host \<Rightarrow> (string \<times> string) list \<Rightarrow> runner \<Rightarrow> nat \<Rightarrow> proc list" where
  "loop_children h [] r n = []"
| "loop_children h ((test, fmt) # ps) r n =
     child_of h r n test fmt # loop_children h ps (r\<lparr>env := child_env r fmt\<rparr>) (Suc n)"

text \<open>Names for the stages of \<open>main\<close>, to state its properties: whether lines 47 to 53
  raise nothing, the state after them, and the list of tests that the loop of lines 62
  to 69 builds when it rejects no argument.\<close>

definition startup_ok :: "host \<Rightarrow> args \<Rightarrow> world \<Rightarrow> bool" where
  "startup_ok h a w \<longleftrightarrow>
     fst (change_dir h a w) = None \<and> (arg_path a = [] \<or> map_of (w_environ w) ''PATH'' \<noteq> None)"

definition after_startup :: "host \<Rightarrow> args \<Rightarrow> world \<Rightarrow> world" where
  "after_startup h a w = snd (extend_path h a (snd (change_dir h a w)))"

definition collected_tests :: "host \<Rightarrow> string \<Rightarrow> string list \<Rightarrow> string list" where
  "collected_tests h cwd xs =
     concat (map (\<lambda>arg. if path_isdir h cwd arg
                          then find_all_gyptest_files h cwd (path_normpath h arg)
                          else [arg]) xs)"

text \<open>Variants of the example host: one on which no path is a directory, one whose
  platform is not in the table of formats, and one whose children all exit with 2.\<close>

definition no_directory_host :: host where
  "no_directory_host = example_host\<lparr>path_isdir := (\<lambda>cwd p. False)\<rparr>"

definition sunos_host :: host where
  "sunos_host = example_host\<lparr>sys_platform := ''sunos5''\<rparr>"

definition skipping_host :: host where
  "skipping_host = example_host\<lparr>popen := (\<lambda>n cmd e piped. (2, [], []))\<rparr>"

definition run_all_args :: args where
  "run_all_args = example_args\<lparr>arg_all := True\<rparr>"

definition one_test_args :: args where
  "one_test_args = example_args\<lparr>arg_tests := [''gyptest_a.py'']\<rparr>"

definition no_exec_args :: args where
  "no_exec_args = example_args\<lparr>arg_no_exec := True, arg_format := ''make'',
     arg_tests := [''gyptest_a.py'']\<rparr>"

text \<open>The command line \<open>-C /nonexistent -f make gyptest_a.py\<close>; on the example host
  \<open>os.chdir\<close> raises for that directory.\<close>

definition missing_dir_args :: args where
  "missing_dir_args = example_args\<lparr>arg_chdir := Some ''/nonexistent'', arg_format := ''make'',
     arg_tests := [''gyptest_a.py'']\<rparr>"

text \<open>A child that writes the character U+0085 to standard output and \<open>PASSED\<close> followed
  by U+00A0 to standard error.\<close>

definition unicode_child :: "nat \<Rightarrow> string list \<Rightarrow> (string \<times> string) list \<Rightarrow> bool \<Rightarrow>
    int \<times> string \<times> string" where
  "unicode_child n cmd e piped = (0, [CHR 0xC2, CHR 0x85], ''PASSED'' @ [CHR 0xC2, CHR 0xA0])"

section \<open>Formatting and printing\<close>

lemma str_int_nat: "str_int (int n) = str_nat n"
  by (simp add: str_int_def)

lemma fmt_ok: "py_format ''ok %d %s'' [D i, S s] = ''ok '' @ str_int i @ '' '' @ s"
  by simp
lemma fmt_not_ok: "py_format ''not ok %d %s'' [D i, S s] = ''not ok '' @ str_int i @ '' '' @ s"
  by simp
lemma fmt_skip: "py_format ''not ok %d # skip %s'' [D i, S s] = ''not ok '' @ str_int i @ '' # skip '' @ s"
  by simp
lemma fmt_ident: "py_format ''(%s) %s'' [S t, S f] = ''('' @ t @ '') '' @ f"
  by simp
lemma fmt_progress: "py_format ''# %s %s'' [S t, S f] = ''# '' @ t @ '' '' @ f"
  by simp
lemma fmt_plan: "py_format ''0..%d'' [D n] = ''0..'' @ str_int n"
  by simp
lemma fmt_duration: "py_format ''  duration_ms: %.3f'' [F x] = ''  duration_ms: '' @ fmt_3f x"
  by simp
lemma fmt_failed_n: "py_format ''Failed the following %d tests:'' [D n] = ''Failed the following '' @ str_int n @ '' tests:''"
  by simp
lemma fmt_ran: "py_format ''Ran %d tests in %.3fs, %d failed.'' [D n, F x, D m] =
   ''Ran '' @ str_int n @ '' tests in '' @ fmt_3f x @ ''s, '' @ str_int m @ '' failed.''"
  by simp

lemma py_print_simps [simp]:
  "w_stdout (py_print xs w) = w_stdout w @ [py_join '' '' xs @ nl]"
  "w_stderr (py_print xs w) = w_stderr w"
  "w_environ (py_print xs w) = w_environ w"
  "w_cwd (py_print xs w) = w_cwd w"
  "w_ticks (py_print xs w) = w_ticks w"
  "w_procs (py_print xs w) = w_procs w"
  by (simp_all add: py_print_def)

lemma foldl_print_stdout:
  "w_stdout (foldl (\<lambda>v l. py_print (g l) v) w ls) = w_stdout w @ map (\<lambda>l. py_join '' '' (g l) @ nl) ls"
  by (induction ls arbitrary: w) simp_all

lemma foldl_print_rest:
  "w_stderr (foldl (\<lambda>v l. py_print (g l) v) w ls) = w_stderr w"
  "w_environ (foldl (\<lambda>v l. py_print (g l) v) w ls) = w_environ w"
  "w_cwd (foldl (\<lambda>v l. py_print (g l) v) w ls) = w_cwd w"
  "w_ticks (foldl (\<lambda>v l. py_print (g l) v) w ls) = w_ticks w"
  "w_procs (foldl (\<lambda>v l. py_print (g l) v) w ls) = w_procs w"
  by (induction ls arbitrary: w, simp_all)+


section \<open>One pair, and the loop over the pairs\<close>

lemma read_clock_simps [simp]:
  "fst (read_clock h w) = time_time h (w_ticks w)"
  "snd (read_clock h w) = w\<lparr>w_ticks := Suc (w_ticks w)\<rparr>"
  by (simp_all add: read_clock_def)

lemma run_test_eq:
  "run_test h test fmt (r, w) =
     (let p = child_of h r (length (w_procs w)) test fmt in
      ((if p_returncode p = 2 then ''not ok %d # skip %s''
        else if p_returncode p \<noteq> 0 then ''not ok %d %s'' else ''ok %d %s'',
        elapsed h (w_ticks w), captured_stdout p, captured_stderr p),
       r\<lparr>env := child_env r fmt,
         failures := failures r @ (if spec_failed p then [spec_failure_id (test, fmt)] else [])\<rparr>,
       w\<lparr>w_ticks := w_ticks w + 2, w_procs := w_procs w @ [p]\<rparr>))"
  unfolding run_test_def read_clock_def Let_def child_of_def child_env_def
  by (simp add: elapsed_def captured_stdout_def captured_stderr_def
      spec_failed_def spec_failure_id_def split: prod.splits)

lemma foldl_print_eq:
  "foldl (\<lambda>v l. py_print (g l) v) w ls =
     w\<lparr>w_stdout := w_stdout w @ map (\<lambda>l. py_join '' '' (g l) @ nl) ls\<rparr>"
  by (induction ls arbitrary: w) (simp_all add: py_print_def)

lemma fmt_res:
  "py_format (if c = 2 then ''not ok %d # skip %s''
              else if c \<noteq> 0 then ''not ok %d %s'' else ''ok %d %s'')
     [D (int i), S (t @ '' '' @ f)] @ nl = spec_status_line c i t f"
  by (simp add: spec_status_line_def str_int_nat)

lemma run_body_eq:
  "run_body h i test fmt (r, w) =
     (let p = child_of h r (length (w_procs w)) test fmt in
      (r\<lparr>env := child_env r fmt,
         failures := failures r @ (if spec_failed p then [spec_failure_id (test, fmt)] else [])\<rparr>,
       w\<lparr>w_stdout := w_stdout w @ spec_progress (verbose r) (test, fmt)
                       @ spec_record i (test, fmt) p (elapsed h (w_ticks w)),
         w_ticks := w_ticks w + 2, w_procs := w_procs w @ [p]\<rparr>))"
proof -
  define p where "p = child_of h r (length (w_procs w)) test fmt"
  define w1 where "w1 = (if verbose r then py_print [py_format ''# %s %s'' [S test, S fmt]] w else w)"
  have w1: "w1 = w\<lparr>w_stdout := w_stdout w @ spec_progress (verbose r) (test, fmt)\<rparr>"
    by (simp add: w1_def spec_progress_def py_print_def)
  have rt: "run_test h test fmt (r, w1) =
      ((if p_returncode p = 2 then ''not ok %d # skip %s''
        else if p_returncode p \<noteq> 0 then ''not ok %d %s'' else ''ok %d %s'',
        elapsed h (w_ticks w), captured_stdout p, captured_stderr p),
       r\<lparr>env := child_env r fmt,
         failures := failures r @ (if spec_failed p then [spec_failure_id (test, fmt)] else [])\<rparr>,
       w1\<lparr>w_ticks := w_ticks w + 2, w_procs := w_procs w @ [p]\<rparr>)"
    unfolding run_test_eq Let_def by (simp add: w1 p_def)
  have status: "py_join '' '' [py_format (if p_returncode p = 2 then ''not ok %d # skip %s''
        else if p_returncode p \<noteq> 0 then ''not ok %d %s'' else ''ok %d %s'')
          [D (int i), S (test @ '' '' @ fmt)]] @ nl
      = spec_status_line (p_returncode p) i test fmt"
    using fmt_res [of "p_returncode p" i test fmt] by simp
  have dur: "py_join '' '' [py_format ''  duration_ms: %.3f'' [F x]] @ nl
      = ''  duration_ms: '' @ fmt_3f x @ nl" for x
    by simp
  show ?thesis
    unfolding run_body_def Let_def p_def [symmetric] prod.case w1_def [symmetric] rt
    unfolding foldl_print_eq
    unfolding py_print_def w1
    using status dur
    by (simp add: spec_record_def spec_metadata_def spec_literal_block_def
        del: py_format.simps)
qed


lemma child_env_cong:
  "env r = env r' \<Longrightarrow> verbose r = verbose r' \<Longrightarrow> child_env r fmt = child_env r' fmt"
  by (simp add: child_env_def)

lemma child_of_cong:
  "env r = env r' \<Longrightarrow> verbose r = verbose r' \<Longrightarrow> gyp_options r = gyp_options r' \<Longrightarrow>
     child_of h r n test fmt = child_of h r' n test fmt"
  by (simp add: child_of_def child_env_def)

lemma loop_children_cong:
  "env r = env r' \<Longrightarrow> verbose r = verbose r' \<Longrightarrow> gyp_options r = gyp_options r' \<Longrightarrow>
     loop_children h ps r n = loop_children h ps r' n"
proof (induction ps arbitrary: r r' n)
  case Nil
  show ?case by simp
next
  case (Cons pr ps)
  obtain test fmt where pr: "pr = (test, fmt)" by (cases pr)
  have c: "child_of h r n test fmt = child_of h r' n test fmt"
    using Cons.prems by (rule child_of_cong)
  have e: "child_env r fmt = child_env r' fmt"
    using Cons.prems(1,2) by (rule child_env_cong)
  have "loop_children h ps (r\<lparr>env := child_env r fmt\<rparr>) (Suc n)
      = loop_children h ps (r'\<lparr>env := child_env r' fmt\<rparr>) (Suc n)"
    by (rule Cons.IH) (simp_all add: e Cons.prems)
  with c show ?case unfolding pr by simp
qed

lemma loop_children_failures [simp]:
  "loop_children h ps (r\<lparr>env := e, failures := fs\<rparr>) n = loop_children h ps (r\<lparr>env := e\<rparr>) n"
  by (rule loop_children_cong) simp_all

lemma length_loop_children [simp]: "length (loop_children h ps r n) = length ps"
  by (induction ps arbitrary: r n) auto

lemma child_of_simps:
  "p_cmd (child_of h r n test fmt) = [sys_executable h, test] @ gyp_options r"
  "map_of (p_env (child_of h r n test fmt)) ''TESTGYP_FORMAT'' = Some fmt"
  "p_piped (child_of h r n test fmt) = (\<not> verbose r)"
  "(p_stderr (child_of h r n test fmt) = None) = verbose r"
  "p_returncode (child_of h r n test fmt) =
     fst (popen h n ([sys_executable h, test] @ gyp_options r)
            (p_env (child_of h r n test fmt)) (\<not> verbose r))"
  by (simp_all add: child_of_def child_env_def Let_def update_conv')

lemma loop_children_nth:
  "k < length ps \<Longrightarrow>
     p_cmd (loop_children h ps r n ! k) = [sys_executable h, fst (ps ! k)] @ gyp_options r
   \<and> map_of (p_env (loop_children h ps r n ! k)) ''TESTGYP_FORMAT'' = Some (snd (ps ! k))
   \<and> p_piped (loop_children h ps r n ! k) = (\<not> verbose r)
   \<and> (p_stderr (loop_children h ps r n ! k) = None) = verbose r
   \<and> p_returncode (loop_children h ps r n ! k) =
       fst (popen h (n + k) (p_cmd (loop_children h ps r n ! k))
         (p_env (loop_children h ps r n ! k)) (p_piped (loop_children h ps r n ! k)))"
proof (induction ps arbitrary: r n k)
  case Nil
  then show ?case by simp
next
  case (Cons pr ps)
  obtain test fmt where pr: "pr = (test, fmt)" by (cases pr)
  show ?case
  proof (cases k)
    case 0
    then show ?thesis unfolding pr by (simp add: child_of_simps)
  next
    case (Suc j)
    with Cons.prems have j: "j < length ps" by simp
    from Cons.IH [OF j, of "r\<lparr>env := child_env r fmt\<rparr>" "Suc n"]
    show ?thesis unfolding pr Suc by simp
  qed
qed

lemma run_loop_rest:
  "w_stderr (snd (run_loop h i ps (r, w))) = w_stderr w
   \<and> w_environ (snd (run_loop h i ps (r, w))) = w_environ w
   \<and> w_cwd (snd (run_loop h i ps (r, w))) = w_cwd w
   \<and> w_ticks (snd (run_loop h i ps (r, w))) = w_ticks w + 2 * length ps
   \<and> verbose (fst (run_loop h i ps (r, w))) = verbose r
   \<and> gyp_options (fst (run_loop h i ps (r, w))) = gyp_options r
   \<and> formats (fst (run_loop h i ps (r, w))) = formats r
   \<and> tests (fst (run_loop h i ps (r, w))) = tests r
   \<and> num_tests (fst (run_loop h i ps (r, w))) = num_tests r"
proof (induction ps arbitrary: i r w)
  case Nil
  show ?case by simp
next
  case (Cons pr ps)
  obtain test fmt where pr: "pr = (test, fmt)" by (cases pr)
  show ?case
    unfolding pr run_loop.simps run_body_eq Let_def
    by (simp add: Cons.IH)
qed

lemma run_loop_procs:
  "w_procs (snd (run_loop h i ps (r, w))) = w_procs w @ loop_children h ps r (length (w_procs w))"
proof (induction ps arbitrary: i r w)
  case Nil
  show ?case by simp
next
  case (Cons pr ps)
  obtain test fmt where pr: "pr = (test, fmt)" by (cases pr)
  show ?case
    unfolding pr run_loop.simps run_body_eq Let_def
    by (simp add: Cons.IH)
qed

lemma run_loop_failures:
  "failures (fst (run_loop h i ps (r, w))) =
     failures r @ map (\<lambda>x. spec_failure_id (fst x))
       (filter (\<lambda>x. spec_failed (snd x)) (zip ps (loop_children h ps r (length (w_procs w)))))"
proof (induction ps arbitrary: i r w)
  case Nil
  show ?case by simp
next
  case (Cons pr ps)
  obtain test fmt where pr: "pr = (test, fmt)" by (cases pr)
  show ?case
    unfolding pr run_loop.simps run_body_eq Let_def
    by (simp add: Cons.IH)
qed

lemma run_loop_stdout:
  "w_stdout (snd (run_loop h i ps (r, w))) =
     w_stdout w @ concat (map (\<lambda>k. spec_progress (verbose r) (ps ! k) @
        spec_record (i + k) (ps ! k) (loop_children h ps r (length (w_procs w)) ! k)
          (elapsed h (w_ticks w + 2 * k))) [0..<length ps])"
proof (induction ps arbitrary: i r w)
  case Nil
  show ?case by simp
next
  case (Cons pr ps)
  obtain test fmt where pr: "pr = (test, fmt)" by (cases pr)
  show ?case
    unfolding pr run_loop.simps run_body_eq Let_def
    by (simp add: Cons.IH map_upt_Suc del: upt_Suc)
qed

section \<open>The whole run\<close>

lemma run_eq:
  "run h (r, w) =
     (let w3 = w\<lparr>w_stdout := w_stdout w @ [''TAP version 13'' @ nl, ''0..'' @ str_nat (num_tests r) @ nl],
                 w_ticks := Suc (w_ticks w)\<rparr>;
          rw4 = run_loop h 1 (List.product (tests r) (formats r)) (r, w3)
      in ((fst rw4)\<lparr>took := time_time h (w_ticks (snd rw4)) - time_time h (w_ticks w)\<rparr>,
          (snd rw4)\<lparr>w_ticks := Suc (w_ticks (snd rw4))\<rparr>))"
  unfolding run_def read_clock_def py_print_def Let_def product_concat_map
  by (simp add: str_int_nat split: prod.splits)

lemma run_procs:
  "w_procs (snd (run h (r, w))) =
     w_procs w @ loop_children h (List.product (tests r) (formats r)) r (length (w_procs w))"
  unfolding run_eq Let_def by (simp add: run_loop_procs)

lemma run_failures:
  "failures (fst (run h (r, w))) =
     failures r @ map (\<lambda>x. spec_failure_id (fst x))
       (filter (\<lambda>x. spec_failed (snd x))
          (zip (List.product (tests r) (formats r))
             (loop_children h (List.product (tests r) (formats r)) r (length (w_procs w)))))"
  unfolding run_eq Let_def by (simp add: run_loop_failures)

lemma run_stdout:
  "w_stdout (snd (run h (r, w))) =
     w_stdout w @ [''TAP version 13'' @ nl, ''0..'' @ str_nat (num_tests r) @ nl] @
     concat (map (\<lambda>k. spec_progress (verbose r) (List.product (tests r) (formats r) ! k) @
        spec_record (Suc k) (List.product (tests r) (formats r) ! k)
          (loop_children h (List.product (tests r) (formats r)) r (length (w_procs w)) ! k)
          (elapsed h (w_ticks w + 1 + 2 * k))) [0..<length (tests r) * length (formats r)])"
  unfolding run_eq Let_def by (simp add: run_loop_stdout)

lemma run_rest:
  "w_stderr (snd (run h (r, w))) = w_stderr w \<and>
   w_environ (snd (run h (r, w))) = w_environ w \<and>
   w_cwd (snd (run h (r, w))) = w_cwd w \<and>
   w_ticks (snd (run h (r, w))) = w_ticks w + 2 * (length (tests r) * length (formats r)) + 2 \<and>
   num_tests (fst (run h (r, w))) = num_tests r \<and>
   took (fst (run h (r, w))) =
     time_time h (w_ticks w + 2 * (length (tests r) * length (formats r)) + 1) - time_time h (w_ticks w)"
  unfolding run_eq Let_def by (simp add: run_loop_rest)


section \<open>Status line and failure log (C1)\<close>

text \<open>
  Claim C1.  One iteration of the loop of \<open>run\<close>, for the pair \<open>(test, fmt)\<close> numbered
  \<open>i\<close>, runs exactly one child, started for that test with that format, and prints its
  status line first (after the progress line of verbose mode).  When the child exits with
  0 the line is \<open>ok i test fmt\<close> and the failure log is unchanged; when it exits with 2
  the line is \<open>not ok i # skip test fmt\<close> and the failure log is unchanged; for every
  other exit code the line is \<open>not ok i test fmt\<close> and exactly the identifier
  \<open>(test) fmt\<close> is appended to the failure log.
\<close>

theorem status_line_by_exit_code:
  "\<exists>p line block.
     w_procs (snd (run_body h i test fmt (r, w))) = w_procs w @ [p]
   \<and> p_cmd p = [sys_executable h, test] @ gyp_options r
   \<and> map_of (p_env p) ''TESTGYP_FORMAT'' = Some fmt
   \<and> p_returncode p = fst (popen h (length (w_procs w)) (p_cmd p) (p_env p) (p_piped p))
   \<and> w_stdout (snd (run_body h i test fmt (r, w))) =
        w_stdout w @ (if verbose r then [''# '' @ test @ '' '' @ fmt @ nl] else []) @ line # block
   \<and> (p_returncode p = 0 \<longrightarrow>
        line = ''ok '' @ str_nat i @ '' '' @ test @ '' '' @ fmt @ nl
      \<and> failures (fst (run_body h i test fmt (r, w))) = failures r)
   \<and> (p_returncode p = 2 \<longrightarrow>
        line = ''not ok '' @ str_nat i @ '' # skip '' @ test @ '' '' @ fmt @ nl
      \<and> failures (fst (run_body h i test fmt (r, w))) = failures r)
   \<and> (p_returncode p \<noteq> 0 \<and> p_returncode p \<noteq> 2 \<longrightarrow>
        line = ''not ok '' @ str_nat i @ '' '' @ test @ '' '' @ fmt @ nl
      \<and> failures (fst (run_body h i test fmt (r, w))) = failures r @ [''('' @ test @ '') '' @ fmt])"
  apply (rule exI [of _ "child_of h r (length (w_procs w)) test fmt"])
  apply (rule exI [of _ "spec_status_line
      (p_returncode (child_of h r (length (w_procs w)) test fmt)) i test fmt"])
  apply (rule exI [of _ "spec_metadata (elapsed h (w_ticks w))
      (captured_stdout (child_of h r (length (w_procs w)) test fmt))
      (captured_stderr (child_of h r (length (w_procs w)) test fmt))"])
  unfolding run_body_eq Let_def
  by (simp add: child_of_simps spec_status_line_def spec_failed_def spec_failure_id_def
      spec_progress_def spec_record_def)


text \<open>The three cases on the example host: children exiting with 0, with 2 and with -9.\<close>

theorem status_line_by_exit_code_witness:
  "(\<exists>p. w_procs (snd (run_body (example_host\<lparr>popen := \<lambda>n c e p. (0, [], [])\<rparr>) 1 ''gyptest_a.py'' ''make''
           (Runner_init example_host [''make''] [''gyptest_a.py''] [] False example_world, example_world))) = [p]
        \<and> p_returncode p = 0)
   \<and> w_stdout (snd (run_body (example_host\<lparr>popen := \<lambda>n c e p. (0, [], [])\<rparr>) 1 ''gyptest_a.py'' ''make''
           (Runner_init example_host [''make''] [''gyptest_a.py''] [] False example_world, example_world))) ! 0
        = ''ok 1 gyptest_a.py make'' @ nl
   \<and> failures (fst (run_body (example_host\<lparr>popen := \<lambda>n c e p. (0, [], [])\<rparr>) 1 ''gyptest_a.py'' ''make''
           (Runner_init example_host [''make''] [''gyptest_a.py''] [] False example_world, example_world))) = []
   \<and> (\<exists>p. w_procs (snd (run_body (example_host\<lparr>popen := \<lambda>n c e p. (2, [], [])\<rparr>) 2 ''gyptest_a.py'' ''ninja''
           (Runner_init example_host [''make''] [''gyptest_a.py''] [] False example_world, example_world))) = [p]
        \<and> p_returncode p = 2)
   \<and> w_stdout (snd (run_body (example_host\<lparr>popen := \<lambda>n c e p. (2, [], [])\<rparr>) 2 ''gyptest_a.py'' ''ninja''
           (Runner_init example_host [''make''] [''gyptest_a.py''] [] False example_world, example_world))) ! 0
        = ''not ok 2 # skip gyptest_a.py ninja'' @ nl
   \<and> failures (fst (run_body (example_host\<lparr>popen := \<lambda>n c e p. (2, [], [])\<rparr>) 2 ''gyptest_a.py'' ''ninja''
           (Runner_init example_host [''make''] [''gyptest_a.py''] [] False example_world, example_world))) = []
   \<and> (\<exists>p. w_procs (snd (run_body (example_host\<lparr>popen := \<lambda>n c e p. (- 9, [], [])\<rparr>) 3 ''gyptest_b.py'' ''make''
           (Runner_init example_host [''make''] [''gyptest_a.py''] [] False example_world, example_world))) = [p]
        \<and> p_returncode p = - 9)
   \<and> w_stdout (snd (run_body (example_host\<lparr>popen := \<lambda>n c e p. (- 9, [], [])\<rparr>) 3 ''gyptest_b.py'' ''make''
           (Runner_init example_host [''make''] [''gyptest_a.py''] [] False example_world, example_world))) ! 0
        = ''not ok 3 gyptest_b.py make'' @ nl
   \<and> failures (fst (run_body (example_host\<lparr>popen := \<lambda>n c e p. (- 9, [], [])\<rparr>) 3 ''gyptest_b.py'' ''make''
           (Runner_init example_host [''make''] [''gyptest_a.py''] [] False example_world, example_world)))
        = [''(gyptest_b.py) make'']"
proof -
  let ?R = "Runner_init example_host [''make''] [''gyptest_a.py''] [] False example_world"
  have R: "failures ?R = []" "verbose ?R = False" "w_procs example_world = []"
    "w_stdout example_world = []"
    by (simp_all add: Runner_init_def example_world_def)
  have n: "str_nat 1 = ''1''" "str_nat 2 = ''2''" "str_nat 3 = ''3''"
    by (simp_all add: str_nat.simps digit_char_def)
  have a: ?thesis if "\<And>h i t f. 
      \<exists>p line block.
     w_procs (snd (run_body h i t f (?R, example_world))) = w_procs example_world @ [p]
   \<and> p_cmd p = [sys_executable h, t] @ gyp_options ?R
   \<and> map_of (p_env p) ''TESTGYP_FORMAT'' = Some f
   \<and> p_returncode p = fst (popen h (length (w_procs example_world)) (p_cmd p) (p_env p) (p_piped p))
   \<and> w_stdout (snd (run_body h i t f (?R, example_world))) =
        w_stdout example_world @ (if verbose ?R then [''# '' @ t @ '' '' @ f @ nl] else []) @ line # block
   \<and> (p_returncode p = 0 \<longrightarrow>
        line = ''ok '' @ str_nat i @ '' '' @ t @ '' '' @ f @ nl
      \<and> failures (fst (run_body h i t f (?R, example_world))) = failures ?R)
   \<and> (p_returncode p = 2 \<longrightarrow>
        line = ''not ok '' @ str_nat i @ '' # skip '' @ t @ '' '' @ f @ nl
      \<and> failures (fst (run_body h i t f (?R, example_world))) = failures ?R)
   \<and> (p_returncode p \<noteq> 0 \<and> p_returncode p \<noteq> 2 \<longrightarrow>
        line = ''not ok '' @ str_nat i @ '' '' @ t @ '' '' @ f @ nl
      \<and> failures (fst (run_body h i t f (?R, example_world))) = failures ?R @ [''('' @ t @ '') '' @ f])"
    using that [of "example_host\<lparr>popen := \<lambda>n c e p. (0, [], [])\<rparr>" 1 "''gyptest_a.py''" "''make''"]
      that [of "example_host\<lparr>popen := \<lambda>n c e p. (2, [], [])\<rparr>" 2 "''gyptest_a.py''" "''ninja''"]
      that [of "example_host\<lparr>popen := \<lambda>n c e p. (- 9, [], [])\<rparr>" 3 "''gyptest_b.py''" "''make''"]
    unfolding R n by (elim exE conjE) simp
  show ?thesis
    by (rule a) (rule status_line_by_exit_code)
qed

section \<open>The metadata block (C10)\<close>

lemma round_half_even_close:
  assumes "0 \<le> m"
  shows "\<bar>of_nat (round_half_even m) - m\<bar> \<le> 1 / 2"
proof -
  define f where "f = \<lfloor>m\<rfloor>"
  have f0: "0 \<le> f" using assms by (simp add: f_def)
  have lo: "of_int f \<le> m" and hi: "m < of_int f + 1"
    by (simp_all add: f_def) linarith
  have nat_f: "(of_nat (nat f) :: rat) = of_int f" "(of_nat (nat (f + 1)) :: rat) = of_int f + 1"
    using f0 by simp_all
  show ?thesis
    unfolding round_half_even_def Let_def f_def [symmetric]
    using lo hi nat_f by (auto simp: abs_if)
qed

lemma fmt_3f_shape:
  "\<exists>n. fmt_3f x = (if x < 0 then ''-'' else []) @ str_nat (n div 1000) @ ''.'' @
          [digit_char (n div 100), digit_char (n div 10), digit_char n]
     \<and> \<bar>of_nat n / 1000 - \<bar>x\<bar>\<bar> \<le> 1 / 2000"
proof -
  have "\<bar>of_nat (round_half_even (\<bar>x\<bar> * 1000)) - \<bar>x\<bar> * 1000\<bar> \<le> 1 / 2"
    by (rule round_half_even_close) simp
  then have "\<bar>of_nat (round_half_even (\<bar>x\<bar> * 1000)) / 1000 - \<bar>x\<bar>\<bar> \<le> 1 / 2000"
    by (simp add: abs_if field_simps split: if_splits)
  then show ?thesis
    unfolding fmt_3f_def Let_def by (intro exI [of _ "round_half_even (\<bar>x\<bar> * 1000)"]) simp
qed


text \<open>
  Claim C10.  For every pair, what one iteration prints after the status line is: the
  line \<open>---\<close>, the line \<open>duration_ms:\<close> with the elapsed time in the conversion
  \<open>%.3f\<close>, the block \<open>stdout: |-\<close> with every line of the trimmed standard output
  indented, present exactly when that output is not empty, the block \<open>stderr: |-\<close>,
  present exactly when the trimmed standard error is neither empty nor \<open>PASSED\<close>, and
  the line \<open>...\<close>.  Trimming is \<open>str.strip\<close> and the lines are those of
  \<open>str.splitlines\<close>, with the whitespace and the line boundaries of Python 3 (those
  outside ASCII too).  The conversion writes a sign, the integer part, a point and three
  digits, and the number written differs from the time by at most 0.0005.
\<close>

theorem metadata_block_after_status_line:
  "let p = child_of h r (length (w_procs w)) test fmt;
       out = py_strip (p_stdout p);
       err = py_strip (case p_stderr p of None \<Rightarrow> [] | Some e \<Rightarrow> e);
       t = time_time h (Suc (w_ticks w)) - time_time h (w_ticks w)
   in w_procs (snd (run_body h i test fmt (r, w))) = w_procs w @ [p]
    \<and> (\<exists>status. w_stdout (snd (run_body h i test fmt (r, w))) =
          w_stdout w @ (if verbose r then [''# '' @ test @ '' '' @ fmt @ nl] else []) @
          status #
          [''  ---'' @ nl, ''  duration_ms: '' @ fmt_3f t @ nl] @
          (if out \<noteq> [] then
             (''  stdout: |-'' @ nl) # map (\<lambda>l. ''    '' @ l @ nl) (py_splitlines out)
           else []) @
          (if err \<noteq> [] \<and> err \<noteq> ''PASSED'' then
             (''  stderr: |-'' @ nl) # map (\<lambda>l. ''    '' @ l @ nl) (py_splitlines err)
           else []) @
          [''  ...'' @ nl])
    \<and> (\<exists>n. fmt_3f t = (if t < 0 then ''-'' else []) @ str_nat (n div 1000) @ ''.'' @
              [digit_char (n div 100), digit_char (n div 10), digit_char n]
          \<and> \<bar>of_nat n / 1000 - \<bar>t\<bar>\<bar> \<le> 1 / 2000)"
  unfolding Let_def run_body_eq
  apply (intro conjI)
    apply simp
   apply (rule exI [of _ "spec_status_line
      (p_returncode (child_of h r (length (w_procs w)) test fmt)) i test fmt"])
   apply (simp add: spec_record_def spec_metadata_def spec_literal_block_def spec_progress_def
      captured_stdout_def captured_stderr_def elapsed_def)
  apply (rule fmt_3f_shape)
  done

text \<open>Three children on the example host: one writes two lines and \<open>PASSED\<close>, one
  writes only to standard error, and one writes U+0085 to standard output and \<open>PASSED\<close>
  followed by U+00A0 to standard error; both are trimmed away, and no block is printed
  for the third.\<close>

theorem metadata_block_after_status_line_witness:
  "(\<exists>status. w_stdout (snd (run_body (example_host\<lparr>popen := example_children\<rparr>) 1
        ''gyptest_a.py'' ''make''
        (Runner_init example_host [''make''] [''gyptest_a.py''] [] False example_world,
         example_world))) =
      [status, ''  ---'' @ nl, ''  duration_ms: 0.125'' @ nl, ''  stdout: |-'' @ nl,
       ''    built'' @ nl, ''    linked'' @ nl, ''  ...'' @ nl])
   \<and> (\<exists>status. w_stdout (snd (run_body (example_host\<lparr>popen := \<lambda>n c e p. (2, [], ''no ninja'' @ nl)\<rparr>) 2
        ''gyptest_a.py'' ''ninja''
        (Runner_init example_host [''make''] [''gyptest_a.py''] [] False example_world,
         example_world))) =
      [status, ''  ---'' @ nl, ''  duration_ms: 0.125'' @ nl, ''  stderr: |-'' @ nl,
       ''    no ninja'' @ nl, ''  ...'' @ nl])
   \<and> (\<exists>status. w_stdout (snd (run_body (example_host\<lparr>popen := unicode_child\<rparr>) 3
        ''gyptest_a.py'' ''make''
        (Runner_init example_host [''make''] [''gyptest_a.py''] [] False example_world,
         example_world))) =
      [status, ''  ---'' @ nl, ''  duration_ms: 0.125'' @ nl, ''  ...'' @ nl])"
proof -
  let ?R = "Runner_init example_host [''make''] [''gyptest_a.py''] [] False example_world"
  let ?H = "example_host\<lparr>popen := example_children\<rparr>"
  let ?K = "example_host\<lparr>popen := \<lambda>n c e p. (2, [], ''no ninja'' @ nl)\<rparr>"
  let ?U = "example_host\<lparr>popen := unicode_child\<rparr>"
  have w: "w_stdout example_world = []" "verbose ?R = False"
    by (simp_all add: Runner_init_def example_world_def)
  have t: "fmt_3f (time_time ?H (Suc (w_ticks example_world)) - time_time ?H (w_ticks example_world))
      = ''0.125''"
    "fmt_3f (time_time ?K (Suc (w_ticks example_world)) - time_time ?K (w_ticks example_world))
      = ''0.125''"
    "fmt_3f (time_time ?U (Suc (w_ticks example_world)) - time_time ?U (w_ticks example_world))
      = ''0.125''"
    by code_simp+
  have o1: "py_strip (p_stdout (child_of ?H ?R (length (w_procs example_world)) ''gyptest_a.py'' ''make''))
      = ''built'' @ nl @ ''linked''"
    by code_simp
  have e1: "py_strip (case p_stderr (child_of ?H ?R (length (w_procs example_world)) ''gyptest_a.py'' ''make'')
        of None \<Rightarrow> [] | Some e \<Rightarrow> e) = ''PASSED''"
    by code_simp
  have o2: "py_strip (p_stdout (child_of ?K ?R (length (w_procs example_world)) ''gyptest_a.py'' ''ninja''))
      = []"
    by code_simp
  have e2: "py_strip (case p_stderr (child_of ?K ?R (length (w_procs example_world)) ''gyptest_a.py'' ''ninja'')
        of None \<Rightarrow> [] | Some e \<Rightarrow> e) = ''no ninja''"
    by code_simp
  have o3: "py_strip (p_stdout (child_of ?U ?R (length (w_procs example_world)) ''gyptest_a.py'' ''make''))
      = []"
    by code_simp
  have e3: "py_strip (case p_stderr (child_of ?U ?R (length (w_procs example_world)) ''gyptest_a.py'' ''make'')
        of None \<Rightarrow> [] | Some e \<Rightarrow> e) = ''PASSED''"
    by code_simp
  have l: "py_splitlines (''built'' @ nl @ ''linked'') = [''built'', ''linked'']"
    "py_splitlines ''no ninja'' = [''no ninja'']"
    by code_simp+
  show ?thesis
    using metadata_block_after_status_line [of ?H ?R example_world "''gyptest_a.py''" "''make''" 1]
      metadata_block_after_status_line [of ?K ?R example_world "''gyptest_a.py''" "''ninja''" 2]
      metadata_block_after_status_line [of ?U ?R example_world "''gyptest_a.py''" "''make''" 3]
    unfolding Let_def o1 e1 o2 e2 o3 e3 t l w by simp
qed

section \<open>Records of a run: count, indices, order (C2, C3)\<close>

lemma Runner_init_simps [simp]:
  "formats (Runner_init h fmts ts opts v w) = fmts"
  "tests (Runner_init h fmts ts opts v w) = ts"
  "verbose (Runner_init h fmts ts opts v w) = v"
  "gyp_options (Runner_init h fmts ts opts v w) = opts"
  "failures (Runner_init h fmts ts opts v w) = []"
  "num_tests (Runner_init h fmts ts opts v w) = length fmts * length ts"
  "env (Runner_init h fmts ts opts v w) = w_environ w"
  by (simp_all add: Runner_init_def)

text \<open>
  Claim C2.  For every list of formats and every list of tests, \<open>run\<close> on a fresh
  runner prints the version line, then the plan line \<open>0..N\<close> with
  \<open>N = len(formats) * len(tests)\<close>, then exactly \<open>N\<close> records, one for each of the \<open>N\<close>
  children it runs; the status line of the \<open>k\<close>-th record printed (counting from 0)
  carries the index \<open>k + 1\<close>, whatever the exit codes of the children are.
\<close>

theorem run_emits_one_record_per_pair:
  "let R = Runner_init h fmts ts opts v w;
       N = length fmts * length ts
   in \<exists>new. length new = N
      \<and> w_procs (snd (run h (R, w))) = w_procs w @ new
      \<and> w_stdout (snd (run h (R, w))) =
          w_stdout w @ [''TAP version 13'' @ nl, ''0..'' @ str_nat N @ nl] @
          concat (map (\<lambda>k.
             spec_progress v (List.product ts fmts ! k) @
             spec_status_line (p_returncode (new ! k)) (Suc k)
               (fst (List.product ts fmts ! k)) (snd (List.product ts fmts ! k)) #
             spec_metadata (elapsed h (w_ticks w + 1 + 2 * k))
               (captured_stdout (new ! k)) (captured_stderr (new ! k))) [0..<N])"
  unfolding Let_def
  apply (rule exI [of _ "loop_children h (List.product ts fmts) (Runner_init h fmts ts opts v w)
      (length (w_procs w))"])
  apply (simp add: run_procs run_stdout spec_record_def mult.commute)
  done

lemma run_pairs_in_order:
  "let R = Runner_init h fmts ts opts v w;
       N = length ts * length fmts
   in \<exists>new. length new = N
      \<and> w_procs (snd (run h (R, w))) = w_procs w @ new
      \<and> (\<forall>k<N. p_cmd (new ! k) = [sys_executable h, ts ! (k div length fmts)] @ opts
              \<and> map_of (p_env (new ! k)) ''TESTGYP_FORMAT'' = Some (fmts ! (k mod length fmts)))
      \<and> w_stdout (snd (run h (R, w))) =
          w_stdout w @ [''TAP version 13'' @ nl, ''0..'' @ str_nat N @ nl] @
          concat (map (\<lambda>k.
             spec_progress v (ts ! (k div length fmts), fmts ! (k mod length fmts)) @
             spec_status_line (p_returncode (new ! k)) (Suc k)
               (ts ! (k div length fmts)) (fmts ! (k mod length fmts)) #
             spec_metadata (elapsed h (w_ticks w + 1 + 2 * k))
               (captured_stdout (new ! k)) (captured_stderr (new ! k))) [0..<N])"
proof -
  let ?R = "Runner_init h fmts ts opts v w"
  let ?ps = "List.product ts fmts"
  let ?new = "loop_children h ?ps ?R (length (w_procs w))"
  have nth: "?ps ! k = (ts ! (k div length fmts), fmts ! (k mod length fmts))" if "k < length ts * length fmts" for k
    using that by (rule product_nth)
  have len: "length ?new = length ts * length fmts"
    by simp
  have procs: "w_procs (snd (run h (?R, w))) = w_procs w @ ?new"
    by (simp add: run_procs)
  have cmds: "p_cmd (?new ! k) = [sys_executable h, ts ! (k div length fmts)] @ opts
      \<and> map_of (p_env (?new ! k)) ''TESTGYP_FORMAT'' = Some (fmts ! (k mod length fmts))"
    if "k < length ts * length fmts" for k
    using loop_children_nth [of k ?ps h ?R "length (w_procs w)"] that nth [OF that] by simp
  have out: "w_stdout (snd (run h (?R, w))) =
          w_stdout w @ [''TAP version 13'' @ nl, ''0..'' @ str_nat (length ts * length fmts) @ nl] @
          concat (map (\<lambda>k.
             spec_progress v (ts ! (k div length fmts), fmts ! (k mod length fmts)) @
             spec_status_line (p_returncode (?new ! k)) (Suc k)
               (ts ! (k div length fmts)) (fmts ! (k mod length fmts)) #
             spec_metadata (elapsed h (w_ticks w + 1 + 2 * k))
               (captured_stdout (?new ! k)) (captured_stderr (?new ! k))) [0..<length ts * length fmts])"
    unfolding run_stdout
    apply (simp add: spec_record_def mult.commute [of "length fmts"])
    apply (rule arg_cong [where f = concat])
    apply (rule map_cong [OF refl])
    apply (simp add: nth)
    done
  show ?thesis
    unfolding Let_def
    apply (rule exI [of _ ?new])
    using len procs cmds out by blast
qed


lemma run_two_by_two:
  "\<exists>p1 p2 p3 p4 m1 m2 m3 m4.
      w_procs (snd (run h (Runner_init h [''make'', ''ninja''] [a, b] opts v w, w))) =
        w_procs w @ [p1, p2, p3, p4]
    \<and> w_stdout (snd (run h (Runner_init h [''make'', ''ninja''] [a, b] opts v w, w))) =
        w_stdout w @ [''TAP version 13'' @ nl, ''0..4'' @ nl] @
        spec_progress v (a, ''make'') @ spec_status_line (p_returncode p1) 1 a ''make'' # m1 @
        spec_progress v (a, ''ninja'') @ spec_status_line (p_returncode p2) 2 a ''ninja'' # m2 @
        spec_progress v (b, ''make'') @ spec_status_line (p_returncode p3) 3 b ''make'' # m3 @
        spec_progress v (b, ''ninja'') @ spec_status_line (p_returncode p4) 4 b ''ninja'' # m4"
proof -
  let ?R = "Runner_init h [''make'', ''ninja''] [a, b] opts v w"
  let ?ps = "[(a, ''make''), (a, ''ninja''), (b, ''make''), (b, ''ninja'')]"
  let ?new = "loop_children h ?ps ?R (length (w_procs w))"
  have prod: "List.product (tests ?R) (formats ?R) = ?ps"
    by simp
  have four: "[0..<length (tests ?R) * length (formats ?R)] = [0, 1, 2, 3]"
    by (simp add: upt_rec)
  have n4: "str_nat (num_tests ?R) = ''4''"
    by (simp add: str_nat.simps digit_char_def)
  obtain p1 p2 p3 p4 where new: "?new = [p1, p2, p3, p4]"
    by simp
  have procs: "w_procs (snd (run h (?R, w))) = w_procs w @ [p1, p2, p3, p4]"
    unfolding run_procs prod new ..
  have out: "w_stdout (snd (run h (?R, w))) =
        w_stdout w @ [''TAP version 13'' @ nl, ''0..4'' @ nl] @
        spec_progress v (a, ''make'') @ spec_record 1 (a, ''make'') p1 (elapsed h (w_ticks w + 1)) @
        spec_progress v (a, ''ninja'') @ spec_record 2 (a, ''ninja'') p2 (elapsed h (w_ticks w + 3)) @
        spec_progress v (b, ''make'') @ spec_record 3 (b, ''make'') p3 (elapsed h (w_ticks w + 5)) @
        spec_progress v (b, ''ninja'') @ spec_record 4 (b, ''ninja'') p4 (elapsed h (w_ticks w + 7))"
    unfolding run_stdout four n4 prod new by (simp add: numeral_eq_Suc)
  show ?thesis
    using procs out unfolding spec_record_def by (simp del: append_assoc) blast
qed


text \<open>
  Claim C3.  \<open>run\<close> goes through the pairs test by test and, for each test, format by
  format: the \<open>k\<close>-th child (counting from 0) is started for the test number
  \<open>k div len(formats)\<close> with the format number \<open>k mod len(formats)\<close>, and the \<open>k\<close>-th
  record is the one of that pair, with index \<open>k + 1\<close>.  In particular, for the tests
  \<open>[a, b]\<close> and the formats \<open>[make, ninja]\<close> there are exactly four children and
  four records, with the indices 1 to 4, in the order (a, make), (a, ninja), (b, make),
  (b, ninja).
\<close>

theorem run_is_test_major:
  "(let R = Runner_init h fmts ts opts v w;
       N = length ts * length fmts
   in \<exists>new. length new = N
      \<and> w_procs (snd (run h (R, w))) = w_procs w @ new
      \<and> (\<forall>k<N. p_cmd (new ! k) = [sys_executable h, ts ! (k div length fmts)] @ opts
              \<and> map_of (p_env (new ! k)) ''TESTGYP_FORMAT'' = Some (fmts ! (k mod length fmts)))
      \<and> w_stdout (snd (run h (R, w))) =
          w_stdout w @ [''TAP version 13'' @ nl, ''0..'' @ str_nat N @ nl] @
          concat (map (\<lambda>k.
             spec_progress v (ts ! (k div length fmts), fmts ! (k mod length fmts)) @
             spec_status_line (p_returncode (new ! k)) (Suc k)
               (ts ! (k div length fmts)) (fmts ! (k mod length fmts)) #
             spec_metadata (elapsed h (w_ticks w + 1 + 2 * k))
               (captured_stdout (new ! k)) (captured_stderr (new ! k))) [0..<N]))
   \<and> (\<exists>p1 p2 p3 p4 m1 m2 m3 m4.
      w_procs (snd (run h (Runner_init h [''make'', ''ninja''] [a, b] opts v w, w))) =
        w_procs w @ [p1, p2, p3, p4]
    \<and> w_stdout (snd (run h (Runner_init h [''make'', ''ninja''] [a, b] opts v w, w))) =
        w_stdout w @ [''TAP version 13'' @ nl, ''0..4'' @ nl] @
        spec_progress v (a, ''make'') @ spec_status_line (p_returncode p1) 1 a ''make'' # m1 @
        spec_progress v (a, ''ninja'') @ spec_status_line (p_returncode p2) 2 a ''ninja'' # m2 @
        spec_progress v (b, ''make'') @ spec_status_line (p_returncode p3) 3 b ''make'' # m3 @
        spec_progress v (b, ''ninja'') @ spec_status_line (p_returncode p4) 4 b ''ninja'' # m4)"
  using run_pairs_in_order [of h fmts ts opts v w] run_two_by_two [of h a b opts v w]
  by (rule conjI)

text \<open>The four children of the scenario on the example host.\<close>

theorem run_is_test_major_witness:
  "\<exists>new. length new = 4
     \<and> w_procs (snd (run (example_host\<lparr>popen := example_children\<rparr>)
          (Runner_init (example_host\<lparr>popen := example_children\<rparr>) [''make'', ''ninja'']
             [''gyptest_a.py'', ''gyptest_b.py''] [] False example_world, example_world))) = new
     \<and> p_cmd (new ! 0) = [''/usr/bin/python'', ''gyptest_a.py'']
     \<and> map_of (p_env (new ! 0)) ''TESTGYP_FORMAT'' = Some ''make''
     \<and> p_cmd (new ! 1) = [''/usr/bin/python'', ''gyptest_a.py'']
     \<and> map_of (p_env (new ! 1)) ''TESTGYP_FORMAT'' = Some ''ninja''
     \<and> p_cmd (new ! 2) = [''/usr/bin/python'', ''gyptest_b.py'']
     \<and> map_of (p_env (new ! 2)) ''TESTGYP_FORMAT'' = Some ''make''
     \<and> p_cmd (new ! 3) = [''/usr/bin/python'', ''gyptest_b.py'']
     \<and> map_of (p_env (new ! 3)) ''TESTGYP_FORMAT'' = Some ''ninja''"
proof -
  let ?H = "example_host\<lparr>popen := example_children\<rparr>"
  let ?ts = "[''gyptest_a.py'', ''gyptest_b.py'']"
  let ?fs = "[''make'', ''ninja'']"
  have w: "w_procs example_world = []" "sys_executable ?H = ''/usr/bin/python''"
    by (simp_all add: example_world_def example_host_def)
  have len: "length ?ts * length ?fs = 4" "length ?fs = 2"
    by simp_all
  show ?thesis
    using run_is_test_major [of ?H ?fs ?ts "[]" False example_world, THEN conjunct1]
    unfolding Let_def w len
    apply (elim exE conjE)
    apply (rule_tac x = new in exI)
    apply (frule_tac x = 0 in spec)
    apply (frule_tac x = 1 in spec)
    apply (frule_tac x = 2 in spec)
    apply (drule_tac x = 3 in spec)
    apply simp
    done
qed

text \<open>The run of two tests under two formats on the example host.\<close>

theorem run_emits_one_record_per_pair_witness:
  "\<exists>new. length new = 4
      \<and> w_procs (snd (run (example_host\<lparr>popen := example_children\<rparr>)
          (Runner_init (example_host\<lparr>popen := example_children\<rparr>) [''make'', ''ninja'']
             [''gyptest_a.py'', ''gyptest_b.py''] [] False example_world, example_world))) = new
      \<and> w_stdout (snd (run (example_host\<lparr>popen := example_children\<rparr>)
          (Runner_init (example_host\<lparr>popen := example_children\<rparr>) [''make'', ''ninja'']
             [''gyptest_a.py'', ''gyptest_b.py''] [] False example_world, example_world))) =
          [''TAP version 13'' @ nl, ''0..'' @ ''4'' @ nl] @
          concat (map (\<lambda>k.
             spec_status_line (p_returncode (new ! k)) (Suc k)
               (fst (List.product [''gyptest_a.py'', ''gyptest_b.py''] [''make'', ''ninja''] ! k))
               (snd (List.product [''gyptest_a.py'', ''gyptest_b.py''] [''make'', ''ninja''] ! k)) #
             spec_metadata (elapsed (example_host\<lparr>popen := example_children\<rparr>) (1 + 2 * k))
               (captured_stdout (new ! k)) (captured_stderr (new ! k))) [0..<4])"
proof -
  have w: "w_procs example_world = []" "w_stdout example_world = []" "w_ticks example_world = 0"
    by (simp_all add: example_world_def)
  have n4: "str_nat 4 = ''4''"
    by (simp add: str_nat.simps digit_char_def)
  have len: "length [''make'', ''ninja''] * length [''gyptest_a.py'', ''gyptest_b.py''] = 4"
    by simp
  show ?thesis
    using run_emits_one_record_per_pair [of "example_host\<lparr>popen := example_children\<rparr>"
        "[''make'', ''ninja'']" "[''gyptest_a.py'', ''gyptest_b.py'']" "[]" False example_world]
    unfolding Let_def w len n4 spec_progress_def by (simp only: append_Nil if_False add_0)
qed

section \<open>The summary (C9)\<close>

lemma status_line_not_ok_iff:
  "spec_status_line c i t f = ''not ok '' @ str_nat i @ '' '' @ t @ '' '' @ f @ nl
     \<longleftrightarrow> c \<noteq> 0 \<and> c \<noteq> 2"
  by (simp add: spec_status_line_def)

lemma length_filter_zip_snd:
  "length xs = length ys \<Longrightarrow>
     length (filter (\<lambda>x. Q (snd x)) (zip xs ys)) = length (filter Q ys)"
  by (induction xs ys rule: list_induct2) simp_all

lemma length_filter_nth:
  "length (filter Q ys) = length (filter (\<lambda>k. Q (ys ! k)) [0..<length ys])"
proof -
  have "filter Q (map (nth ys) [0..<length ys]) = map (nth ys) (filter (Q \<circ> nth ys) [0..<length ys])"
    by (rule filter_map)
  then have "length (filter Q ys) = length (filter (Q \<circ> nth ys) [0..<length ys])"
    by (simp add: map_nth)
  then show ?thesis by (simp add: comp_def)
qed

lemma print_results_stdout:
  "w_stdout (print_results r w) = w_stdout w @
     (if failures r = [] then []
      else [nl,
            (if length (failures r) = 1 then ''Failed the following test:''
             else ''Failed the following '' @ str_nat (length (failures r)) @ '' tests:'') @ nl,
            tab @ py_join (nl @ tab) (sort (failures r)) @ nl,
            nl]) @
     [''Ran '' @ str_nat (num_tests r) @ '' tests in '' @ fmt_3f (took r) @ ''s, '' @
        str_nat (length (failures r)) @ '' failed.'' @ nl,
      nl]"
  unfolding print_results_def Let_def
  by (simp add: str_int_nat del: py_format.simps add: fmt_ran fmt_failed_n)

lemma run_failure_count:
  fixes h fmts ts opts v w
  defines "r' \<equiv> fst (run h (Runner_init h fmts ts opts v w, w))"
    and "new \<equiv> drop (length (w_procs w)) (w_procs (snd (run h (Runner_init h fmts ts opts v w, w))))"
  shows "length new = length fmts * length ts"
    and "failures r' = map (\<lambda>x. ''('' @ fst (fst x) @ '') '' @ snd (fst x))
           (filter (\<lambda>x. p_returncode (snd x) \<noteq> 0 \<and> p_returncode (snd x) \<noteq> 2)
              (zip (List.product ts fmts) new))"
    and "length (failures r') =
           length (filter (\<lambda>k. p_returncode (new ! k) \<noteq> 0 \<and> p_returncode (new ! k) \<noteq> 2)
              [0..<length fmts * length ts])"
proof -
  let ?R = "Runner_init h fmts ts opts v w"
  let ?ps = "List.product ts fmts"
  have new: "new = loop_children h ?ps ?R (length (w_procs w))"
    unfolding new_def run_procs by simp
  show len: "length new = length fmts * length ts"
    unfolding new by (simp add: mult.commute)
  show f: "failures r' = map (\<lambda>x. ''('' @ fst (fst x) @ '') '' @ snd (fst x))
           (filter (\<lambda>x. p_returncode (snd x) \<noteq> 0 \<and> p_returncode (snd x) \<noteq> 2)
              (zip ?ps new))"
    unfolding r'_def run_failures new
    by (simp add: spec_failed_def [abs_def] spec_failure_id_def [abs_def])
  have "length (failures r') =
      length (filter (\<lambda>p. p_returncode p \<noteq> 0 \<and> p_returncode p \<noteq> 2) new)"
    unfolding f length_map
    by (rule length_filter_zip_snd) (simp add: len mult.commute)
  also have "\<dots> = length (filter (\<lambda>k. p_returncode (new ! k) \<noteq> 0 \<and> p_returncode (new ! k) \<noteq> 2)
              [0..<length new])"
    by (rule length_filter_nth)
  finally show "length (failures r') =
           length (filter (\<lambda>k. p_returncode (new ! k) \<noteq> 0 \<and> p_returncode (new ! k) \<noteq> 2)
              [0..<length fmts * length ts])"
    unfolding len .
qed


text \<open>
  Claim C9.  \<open>print_results\<close> prints, when the failure log is not empty, an empty
  line, the header (\<open>Failed the following test:\<close> for one failure,
  \<open>Failed the following N tests:\<close> otherwise), the identifiers of the failure log in
  sorted order, one per line after a tab, and an empty line; when the log is empty it
  prints none of these.  In both cases it then prints the line
  \<open>Ran N tests in T s, K failed.\<close> with the number of pairs, the elapsed time in the
  conversion \<open>%.3f\<close> and the number of failures, and an empty line.  After \<open>run\<close> on a
  fresh runner the number of pairs is \<open>len(formats) * len(tests)\<close>, the time is the
  difference of the clock readings around the loop, and the number of failures is the
  number of children that exited with a code other than 0 and 2, which is the number of
  records whose status line is the \<open>not ok\<close> line without \<open># skip\<close>.
\<close>

theorem print_results_summary:
  "w_stdout (print_results r w) = w_stdout w @
     (if failures r = [] then []
      else [nl,
            (if length (failures r) = 1 then ''Failed the following test:''
             else ''Failed the following '' @ str_nat (length (failures r)) @ '' tests:'') @ nl,
            tab @ py_join (nl @ tab) (sort (failures r)) @ nl,
            nl]) @
     [''Ran '' @ str_nat (num_tests r) @ '' tests in '' @ fmt_3f (took r) @ ''s, '' @
        str_nat (length (failures r)) @ '' failed.'' @ nl,
      nl]
   \<and> sorted (sort (failures r)) \<and> mset (sort (failures r)) = mset (failures r)
   \<and> (\<exists>n. fmt_3f (took r) = (if took r < 0 then ''-'' else []) @ str_nat (n div 1000) @ ''.'' @
              [digit_char (n div 100), digit_char (n div 10), digit_char n]
          \<and> \<bar>of_nat n / 1000 - \<bar>took r\<bar>\<bar> \<le> 1 / 2000)
   \<and> (let r1 = fst (run h (Runner_init h fmts ts opts v w0, w0));
           new = drop (length (w_procs w0))
                   (w_procs (snd (run h (Runner_init h fmts ts opts v w0, w0))));
           N = length fmts * length ts
       in num_tests r1 = N
        \<and> took r1 = time_time h (w_ticks w0 + 2 * N + 1) - time_time h (w_ticks w0)
        \<and> length new = N
        \<and> failures r1 = map (\<lambda>x. ''('' @ fst (fst x) @ '') '' @ snd (fst x))
             (filter (\<lambda>x. p_returncode (snd x) \<noteq> 0 \<and> p_returncode (snd x) \<noteq> 2)
                (zip (List.product ts fmts) new))
        \<and> length (failures r1) =
             length (filter (\<lambda>k. p_returncode (new ! k) \<noteq> 0 \<and> p_returncode (new ! k) \<noteq> 2)
                [0..<N])
        \<and> length (failures r1) =
             length (filter (\<lambda>k.
                  spec_status_line (p_returncode (new ! k)) (Suc k)
                    (fst (List.product ts fmts ! k)) (snd (List.product ts fmts ! k))
                  = ''not ok '' @ str_nat (Suc k) @ '' '' @ fst (List.product ts fmts ! k) @ '' '' @
                      snd (List.product ts fmts ! k) @ nl)
                [0..<N]))"
proof -
  have a: "num_tests (fst (run h (Runner_init h fmts ts opts v w0, w0))) = length fmts * length ts"
    "took (fst (run h (Runner_init h fmts ts opts v w0, w0))) =
       time_time h (w_ticks w0 + 2 * (length fmts * length ts) + 1) - time_time h (w_ticks w0)"
    using run_rest [of h "Runner_init h fmts ts opts v w0" w0] by (simp_all add: mult.commute)
  show ?thesis
    unfolding Let_def status_line_not_ok_iff
    using print_results_stdout [of r w] fmt_3f_shape [of "took r"] a
      run_failure_count [where h = h and fmts = fmts and ts = ts and opts = opts and v = v
        and w = w0]
    by simp
qed

text \<open>The summaries of a run with two failures and of a run without failure, on the
  example host.\<close>

theorem print_results_summary_witness:
  "w_stdout (print_results
      (fst (run (example_host\<lparr>popen := example_children\<rparr>)
         (Runner_init (example_host\<lparr>popen := example_children\<rparr>) [''make'', ''ninja'']
            [''gyptest_a.py'', ''gyptest_b.py''] [] False example_world, example_world)))
      example_world) =
     [nl, ''Failed the following 2 tests:'' @ nl,
      tab @ ''(gyptest_b.py) make'' @ nl @ tab @ ''(gyptest_b.py) ninja'' @ nl, nl,
      ''Ran 4 tests in 1.125s, 2 failed.'' @ nl, nl]
   \<and> w_stdout (print_results
      (fst (run example_host
         (Runner_init example_host [''make''] [''gyptest_a.py''] [] False example_world,
          example_world)))
      example_world) =
     [''Ran 1 tests in 0.375s, 0 failed.'' @ nl, nl]"
proof -
  let ?r = "fst (run (example_host\<lparr>popen := example_children\<rparr>)
         (Runner_init (example_host\<lparr>popen := example_children\<rparr>) [''make'', ''ninja'']
            [''gyptest_a.py'', ''gyptest_b.py''] [] False example_world, example_world))"
  let ?q = "fst (run example_host
         (Runner_init example_host [''make''] [''gyptest_a.py''] [] False example_world,
          example_world))"
  have f: "failures ?r = [''(gyptest_b.py) make'', ''(gyptest_b.py) ninja'']" "failures ?q = []"
    unfolding run_failures
    by (simp_all add: child_of_def child_env_def example_children_def example_world_def
        spec_failed_def spec_failure_id_def Let_def example_host_def)
  have n: "num_tests ?r = 4" "num_tests ?q = 1"
    using run_rest [of "example_host\<lparr>popen := example_children\<rparr>"
        "Runner_init (example_host\<lparr>popen := example_children\<rparr>) [''make'', ''ninja'']
            [''gyptest_a.py'', ''gyptest_b.py''] [] False example_world" example_world]
      run_rest [of example_host
        "Runner_init example_host [''make''] [''gyptest_a.py''] [] False example_world"
        example_world]
    by simp_all
  have tk: "took ?r = 9 / 8" "took ?q = 3 / 8"
    using run_rest [of "example_host\<lparr>popen := example_children\<rparr>"
        "Runner_init (example_host\<lparr>popen := example_children\<rparr>) [''make'', ''ninja'']
            [''gyptest_a.py'', ''gyptest_b.py''] [] False example_world" example_world]
      run_rest [of example_host
        "Runner_init example_host [''make''] [''gyptest_a.py''] [] False example_world"
        example_world]
    by (simp_all add: example_host_def example_world_def)
  have t: "fmt_3f (9 / 8) = ''1.125''" "fmt_3f (3 / 8) = ''0.375''"
    by code_simp+
  have s: "sort [''(gyptest_b.py) make'', ''(gyptest_b.py) ninja'']
      = [''(gyptest_b.py) make'', ''(gyptest_b.py) ninja'']"
    by code_simp
  have d: "str_nat 4 = ''4''" "str_nat (Suc (Suc 0)) = ''2''" "str_nat (Suc 0) = ''1''"
    "str_nat 0 = ''0''"
    by (simp_all add: str_nat.simps digit_char_def)
  have w: "w_stdout example_world = []"
    by (simp add: example_world_def)
  show ?thesis
    using print_results_summary [of ?r example_world, THEN conjunct1]
      print_results_summary [of ?q example_world, THEN conjunct1]
    unfolding f n tk t s w by (simp add: d)
qed

section \<open>The stages of main\<close>

lemma change_dir_simps [simp]:
  "w_stdout (snd (change_dir h a w)) = w_stdout w"
  "w_stderr (snd (change_dir h a w)) = w_stderr w"
  "w_environ (snd (change_dir h a w)) = w_environ w"
  "w_procs (snd (change_dir h a w)) = w_procs w"
  "w_ticks (snd (change_dir h a w)) = w_ticks w"
  by (simp_all add: change_dir_def split: option.splits)

lemma change_dir_raises:
  "fst (change_dir h a w) = Some e \<longleftrightarrow>
     (\<exists>d. arg_chdir a = Some d \<and> d \<noteq> [] \<and> os_chdir h (w_cwd w) d = None \<and> e = OSError d)"
  by (auto simp: change_dir_def split: option.splits)

lemma change_dir_returns:
  "fst (change_dir h a w) = None \<longleftrightarrow>
     (\<forall>d. arg_chdir a = Some d \<and> d \<noteq> [] \<longrightarrow> os_chdir h (w_cwd w) d \<noteq> None)"
  by (auto simp: change_dir_def split: option.splits)

lemma extend_path_ok:
  "startup_ok h a w \<Longrightarrow>
     extend_path h a (snd (change_dir h a w)) = (None, after_startup h a w)"
  unfolding startup_ok_def after_startup_def extend_path_def Let_def
  by (auto split: option.splits)

lemma extend_path_raises:
  "\<not> (arg_path a = [] \<or> map_of (w_environ w) ''PATH'' \<noteq> None) \<Longrightarrow>
     extend_path h a (snd (change_dir h a w)) =
       (Some (KeyError ''PATH''), snd (change_dir h a w))"
  unfolding extend_path_def Let_def
  by (auto split: option.splits)

lemma after_startup_simps [simp]:
  "w_stdout (after_startup h a w) = w_stdout w"
  "w_stderr (after_startup h a w) = w_stderr w"
  "w_procs (after_startup h a w) = w_procs w"
  "w_ticks (after_startup h a w) = w_ticks w"
  "w_cwd (after_startup h a w) = w_cwd (snd (change_dir h a w))"
  unfolding after_startup_def extend_path_def Let_def
  by (simp_all split: option.splits)

lemma resolve_tests_eq:
  "resolve_tests h xs found w =
     (case filter (invalid_test_arg h (w_cwd w)) xs of
        [] \<Rightarrow> Inr (found @ collected_tests h (w_cwd w) xs)
      | bad # _ \<Rightarrow> Inl (SysExit 1, py_eprint [bad, ''is not a valid gyp test name.''] w))"
proof (induction xs arbitrary: found)
  case Nil
  show ?case by (simp add: collected_tests_def)
next
  case (Cons x xs)
  have c: "collected_tests h (w_cwd w) (x # xs) =
      (if path_isdir h (w_cwd w) x then find_all_gyptest_files h (w_cwd w) (path_normpath h x)
       else [x]) @ collected_tests h (w_cwd w) xs"
    by (simp add: collected_tests_def)
  show ?case
  proof (cases "invalid_test_arg h (w_cwd w) x")
    case True
    then have "\<not> path_isdir h (w_cwd w) x" "\<not> is_test_name (path_basename h x)"
      by (simp_all add: invalid_test_arg_def)
    with True show ?thesis by simp
  next
    case False
    then have "path_isdir h (w_cwd w) x \<or> is_test_name (path_basename h x)"
      by (simp add: invalid_test_arg_def)
    with False show ?thesis
      unfolding resolve_tests.simps c Cons.IH by (auto split: list.splits)
  qed
qed

lemma py_eprint_simps [simp]:
  "w_stderr (py_eprint xs w) = w_stderr w @ [py_join '' '' xs @ nl]"
  "w_stdout (py_eprint xs w) = w_stdout w"
  "w_procs (py_eprint xs w) = w_procs w"
  by (simp_all add: py_eprint_def)

lemma stderr_write_simps [simp]:
  "w_stderr (stderr_write s w) = w_stderr w @ [s]"
  "w_stdout (stderr_write s w) = w_stdout w"
  "w_procs (stderr_write s w) = w_procs w"
  by (simp_all add: stderr_write_def)

lemma print_configuration_info_ok:
  "map_of (w_environ w) ''PYTHONPATH'' = Some p \<Longrightarrow>
     fst (print_configuration_info h w) = None
   \<and> w_stderr (snd (print_configuration_info h w)) = w_stderr w
   \<and> w_procs (snd (print_configuration_info h w)) = w_procs w
   \<and> w_environ (snd (print_configuration_info h w)) = w_environ w
   \<and> w_ticks (snd (print_configuration_info h w)) = w_ticks w
   \<and> w_cwd (snd (print_configuration_info h w)) = w_cwd w"
  unfolding print_configuration_info_def Let_def
  by (simp add: foldl_print_rest del: py_format.simps)

lemma print_results_rest [simp]:
  "w_stderr (print_results r w) = w_stderr w"
  "w_procs (print_results r w) = w_procs w"
  unfolding print_results_def Let_def by (simp_all del: py_format.simps)


lemma main_chdir_error:
  assumes "fst (change_dir h a w) = Some e"
  shows "main h a w = (Raised e, snd (change_dir h a w))"
proof -
  obtain w1 where c: "change_dir h a w = (Some e, w1)"
    using assms by (cases "change_dir h a w") simp
  show ?thesis
    unfolding main_def c by simp
qed

lemma main_path_error:
  assumes "fst (change_dir h a w) = None"
    and "\<not> (arg_path a = [] \<or> map_of (w_environ w) ''PATH'' \<noteq> None)"
  shows "main h a w = (Raised (KeyError ''PATH''), snd (change_dir h a w))"
proof -
  obtain w1 where c: "change_dir h a w = (None, w1)"
    using assms(1) by (cases "change_dir h a w") simp
  have e: "extend_path h a w1 = (Some (KeyError ''PATH''), w1)"
    using extend_path_raises [OF assms(2), of h] by (simp add: c)
  show ?thesis
    unfolding main_def c by (simp add: e)
qed

lemma main_startup_error:
  assumes "\<not> startup_ok h a w"
  shows "\<exists>e. main h a w = (Raised e, snd (change_dir h a w))"
proof (cases "fst (change_dir h a w)")
  case None
  with assms have "\<not> (arg_path a = [] \<or> map_of (w_environ w) ''PATH'' \<noteq> None)"
    by (simp add: startup_ok_def)
  from main_path_error [OF None this] show ?thesis
    by blast
next
  case (Some e)
  from main_chdir_error [OF this] show ?thesis
    by blast
qed

lemma change_dir_none: "arg_chdir a = None \<Longrightarrow> change_dir h a w = (None, w)"
  by (simp add: change_dir_def)

lemma startup_ok_change_dir:
  "startup_ok h a w \<Longrightarrow> change_dir h a w = (None, snd (change_dir h a w))"
  by (cases "change_dir h a w") (simp add: startup_ok_def)

lemma main_no_tests:
  assumes "startup_ok h a w" "arg_tests a = []" "\<not> arg_all a"
  shows "main h a w =
     (Return 1, stderr_write (''Specify -a to get all tests.'' @ nl) (after_startup h a w))"
  unfolding main_def
  apply (subst startup_ok_change_dir [OF assms(1)])
  apply (subst prod.case)
  apply (subst option.case)
  apply (subst extend_path_ok [OF assms(1)])
  using assms(2,3) by simp

lemma main_bad_name:
  assumes "startup_ok h a w" "\<not> (arg_tests a = [] \<and> \<not> arg_all a)"
    "filter (invalid_test_arg h (w_cwd (snd (change_dir h a w)))) (effective_tests a) = bad # rest"
  shows "main h a w =
     (SysExit 1, py_eprint [bad, ''is not a valid gyp test name.''] (after_startup h a w))"
  unfolding main_def
  apply (subst startup_ok_change_dir [OF assms(1)])
  apply (subst prod.case)
  apply (subst option.case)
  apply (subst extend_path_ok [OF assms(1)])
  using assms(2,3) by (simp add: resolve_tests_eq effective_tests_def)

lemma main_list:
  assumes "startup_ok h a w" "\<not> (arg_tests a = [] \<and> \<not> arg_all a)"
    "filter (invalid_test_arg h (w_cwd (snd (change_dir h a w)))) (effective_tests a) = []"
    "arg_list a"
  shows "fst (main h a w) = SysExit 0 \<and> w_procs (snd (main h a w)) = w_procs w
     \<and> w_stderr (snd (main h a w)) = w_stderr w"
proof -
  have "main h a w =
      (SysExit 0, foldl (\<lambda>v test. py_print [test] v) (after_startup h a w)
         (collected_tests h (w_cwd (snd (change_dir h a w))) (effective_tests a)))"
    unfolding main_def
    apply (subst startup_ok_change_dir [OF assms(1)])
    apply (subst prod.case)
    apply (subst option.case)
    apply (subst extend_path_ok [OF assms(1)])
    using assms(2,3,4) by (simp add: resolve_tests_eq effective_tests_def)
  then show ?thesis
    by (simp add: foldl_print_rest)
qed

lemma main_after_tests:
  assumes "startup_ok h a w" "\<not> (arg_tests a = [] \<and> \<not> arg_all a)"
    "filter (invalid_test_arg h (w_cwd (snd (change_dir h a w)))) (effective_tests a) = []"
    "\<not> arg_list a"
  shows "main h a w =
      (let w2 = after_startup h a w;
           test_files = collected_tests h (w_cwd (snd (change_dir h a w))) (effective_tests a);
           w3 = w2\<lparr>w_environ :=
                 AList.update ''PYTHONPATH'' (path_abspath h (w_cwd w2) ''test/lib'')
                   (w_environ w2)\<rparr> in
      case (if arg_verbose a then print_configuration_info h w3 else (None, w3)) of
        (Some e, w4) \<Rightarrow> (Raised e, w4)
      | (None, w4) \<Rightarrow>
      let w5 = (if arg_gyp_option a \<noteq> [] \<and> \<not> arg_quiet a then
                  py_print [py_format (''Extra Gyp options: %s'' @ nl)
                              [S (str_list h (arg_gyp_option a))]] w4
                else w4) in
      case format_list_of h a of
        Inl e \<Rightarrow> (Raised e, w5)
      | Inr format_list \<Rightarrow>
      let gyp_options = concat (map (\<lambda>option. [''-G'', option]) (arg_gyp_option a));
          runner = Runner_init h format_list test_files gyp_options (arg_verbose a) w5;
          (runner1, w6) = run h (runner, w5);
          w7 = (if \<not> arg_quiet a then print_results runner1 w6 else w6)
      in if failures runner1 \<noteq> [] then (Return 1, w7) else (Return 0, w7))"
proof -
  have r: "resolve_tests h (if arg_tests a = [] then [''test''] else arg_tests a) []
      (after_startup h a w) =
      Inr (collected_tests h (w_cwd (snd (change_dir h a w))) (effective_tests a))"
    unfolding resolve_tests_eq using assms(3) by (simp add: effective_tests_def)
  show ?thesis
    unfolding main_def
    apply (subst startup_ok_change_dir [OF assms(1)])
    apply (subst prod.case)
    apply (subst option.case)
    apply (subst extend_path_ok [OF assms(1)])
    apply (subst prod.case)
    apply (subst option.case)
    apply (subst if_not_P [OF assms(2)])
    apply (subst Let_def)
    apply (subst r)
    apply (subst sum.case)
    apply (subst if_not_P [OF assms(4)])
    apply (subst Let_def [of "after_startup h a w"])
    apply (subst Let_def [of "collected_tests h (w_cwd (snd (change_dir h a w))) (effective_tests a)"])
    apply (rule refl)
    done
qed


lemma main_reaches_formats:
  assumes "startup_ok h a w" "\<not> (arg_tests a = [] \<and> \<not> arg_all a)"
    "filter (invalid_test_arg h (w_cwd (snd (change_dir h a w)))) (effective_tests a) = []"
    "\<not> arg_list a"
  shows "\<exists>w5. w_procs w5 = w_procs w \<and> w_stderr w5 = w_stderr w \<and> w_ticks w5 = w_ticks w \<and>
     main h a w =
       (case format_list_of h a of
          Inl e \<Rightarrow> (Raised e, w5)
        | Inr format_list \<Rightarrow>
            (let rw = run h (Runner_init h format_list
                        (collected_tests h (w_cwd (snd (change_dir h a w))) (effective_tests a))
                        (concat (map (\<lambda>option. [''-G'', option]) (arg_gyp_option a)))
                        (arg_verbose a) w5, w5)
             in (if failures (fst rw) \<noteq> [] then Return 1 else Return 0,
                 if \<not> arg_quiet a then print_results (fst rw) (snd rw) else snd rw)))"
proof -
  define w2 where "w2 = after_startup h a w"
  define w3 where "w3 = w2\<lparr>w_environ := AList.update ''PYTHONPATH''
      (path_abspath h (w_cwd w2) ''test/lib'') (w_environ w2)\<rparr>"
  define c where "c = (if arg_verbose a then print_configuration_info h w3 else (None, w3))"
  define w5 where "w5 = (if arg_gyp_option a \<noteq> [] \<and> \<not> arg_quiet a then
      py_print [py_format (''Extra Gyp options: %s'' @ nl) [S (str_list h (arg_gyp_option a))]] (snd c)
    else snd c)"
  have pp: "map_of (w_environ w3) ''PYTHONPATH'' = Some (path_abspath h (w_cwd w2) ''test/lib'')"
    by (simp add: w3_def update_conv')
  have w3: "w_procs w3 = w_procs w" "w_stderr w3 = w_stderr w" "w_ticks w3 = w_ticks w"
    by (simp_all add: w3_def w2_def)
  have c: "fst c = None" "w_procs (snd c) = w_procs w" "w_stderr (snd c) = w_stderr w"
    "w_ticks (snd c) = w_ticks w"
    using print_configuration_info_ok [OF pp, of h] w3 by (simp_all add: c_def)
  have c': "c = (None, snd c)"
    using c(1) by (cases c) simp
  have w5: "w_procs w5 = w_procs w" "w_stderr w5 = w_stderr w" "w_ticks w5 = w_ticks w"
    using c by (simp_all add: w5_def)
  have m: "main h a w =
       (case format_list_of h a of
          Inl e \<Rightarrow> (Raised e, w5)
        | Inr format_list \<Rightarrow>
            (let rw = run h (Runner_init h format_list
                        (collected_tests h (w_cwd (snd (change_dir h a w))) (effective_tests a))
                        (concat (map (\<lambda>option. [''-G'', option]) (arg_gyp_option a)))
                        (arg_verbose a) w5, w5)
             in (if failures (fst rw) \<noteq> [] then Return 1 else Return 0,
                 if \<not> arg_quiet a then print_results (fst rw) (snd rw) else snd rw)))"
    unfolding main_after_tests [OF assms]
    unfolding Let_def w2_def [symmetric] w3_def [symmetric] c_def [symmetric]
    apply (subst c')
    apply (subst prod.case)
    apply (subst option.case)
    unfolding w5_def [symmetric]
    apply (cases "format_list_of h a")
     apply (simp_all only: sum.case split_beta if_distrib [of "\<lambda>x. (x, _)"])
    done
  show ?thesis
    apply (rule exI [of _ w5])
    using w5 m by simp
qed

lemma no_exec_fields:
  "arg_all (a\<lparr>arg_no_exec := b\<rparr>) = arg_all a"
  "arg_chdir (a\<lparr>arg_no_exec := b\<rparr>) = arg_chdir a"
  "arg_format (a\<lparr>arg_no_exec := b\<rparr>) = arg_format a"
  "arg_gyp_option (a\<lparr>arg_no_exec := b\<rparr>) = arg_gyp_option a"
  "arg_list (a\<lparr>arg_no_exec := b\<rparr>) = arg_list a"
  "arg_path (a\<lparr>arg_no_exec := b\<rparr>) = arg_path a"
  "arg_quiet (a\<lparr>arg_no_exec := b\<rparr>) = arg_quiet a"
  "arg_verbose (a\<lparr>arg_no_exec := b\<rparr>) = arg_verbose a"
  "arg_tests (a\<lparr>arg_no_exec := b\<rparr>) = arg_tests a"
  by simp_all

lemma no_exec_is_ignored: "main h (a\<lparr>arg_no_exec := b\<rparr>) w = main h a w"
  unfolding main_def change_dir_def extend_path_def format_list_of_def no_exec_fields
  by (rule refl)

lemma run_children_failed:
  "failures (fst (run h (Runner_init h fmts ts opts v w, w))) \<noteq> [] \<longleftrightarrow>
     (\<exists>p \<in> set (drop (length (w_procs w)) (w_procs (snd (run h (Runner_init h fmts ts opts v w, w))))).
        p_returncode p \<noteq> 0 \<and> p_returncode p \<noteq> 2)"
proof -
  let ?new = "drop (length (w_procs w)) (w_procs (snd (run h (Runner_init h fmts ts opts v w, w))))"
  have len: "length ?new = length (List.product ts fmts)"
    using run_failure_count(1) [where h = h and fmts = fmts and ts = ts and opts = opts
        and v = v and w = w] by (simp add: mult.commute)
  have "failures (fst (run h (Runner_init h fmts ts opts v w, w))) \<noteq> [] \<longleftrightarrow>
      filter (\<lambda>x. p_returncode (snd x) \<noteq> 0 \<and> p_returncode (snd x) \<noteq> 2)
        (zip (List.product ts fmts) ?new) \<noteq> []"
    unfolding run_failure_count(2) by simp
  also have "\<dots> \<longleftrightarrow> (\<exists>x \<in> set (zip (List.product ts fmts) ?new).
      p_returncode (snd x) \<noteq> 0 \<and> p_returncode (snd x) \<noteq> 2)"
    by (simp add: filter_empty_conv)
  also have "\<dots> \<longleftrightarrow> (\<exists>p \<in> snd ` set (zip (List.product ts fmts) ?new).
      p_returncode p \<noteq> 0 \<and> p_returncode p \<noteq> 2)"
    by auto
  also have "snd ` set (zip (List.product ts fmts) ?new) = set ?new"
    using len by (metis map_snd_zip set_map)
  finally show ?thesis .
qed

section \<open>Invalid test names (C6)\<close>

lemma effective_tests_explicit: "arg_tests a \<noteq> [] \<Longrightarrow> effective_tests a = arg_tests a"
  by (simp add: effective_tests_def)

lemma filter_invalid_Nil:
  "filter (invalid_test_arg h cwd) xs = [] \<longleftrightarrow>
     \<not> (\<exists>t \<in> set xs. \<not> path_isdir h cwd t \<and> \<not> is_test_name (path_basename h t))"
  by (auto simp: filter_empty_conv invalid_test_arg_def)

text \<open>
  Claim C6.  When a positional argument is not a directory and its base name is not a
  test name (it does not both start with \<open>gyptest\<close> and end with \<open>.py\<close>), the process
  ends with exit status 1 before any child is started and before anything is printed on
  standard output.  Unless the start-up lines 47 to 53 have already failed (\<open>os.chdir\<close>
  raising for \<open>--chdir\<close>, or \<open>--path\<close> with no \<open>PATH\<close> in the environment), it ends by
  \<open>sys.exit(1)\<close> in the loop over the arguments, after one line on standard error naming
  the first such argument.
\<close>

theorem invalid_test_name_is_fatal:
  assumes "arg \<in> set (arg_tests a)"
    and "\<not> path_isdir h (w_cwd (snd (change_dir h a w))) arg"
    and "\<not> is_test_name (path_basename h arg)"
  shows "exit_status (fst (main h a w)) = 1
     \<and> w_procs (snd (main h a w)) = w_procs w
     \<and> w_stdout (snd (main h a w)) = w_stdout w
     \<and> (fst (change_dir h a w) = None
          \<and> (arg_path a = [] \<or> map_of (w_environ w) ''PATH'' \<noteq> None) \<longrightarrow>
          fst (main h a w) = SysExit 1
        \<and> w_stderr (snd (main h a w)) =
            w_stderr w @
            [hd (filter (\<lambda>t. \<not> path_isdir h (w_cwd (snd (change_dir h a w))) t
                            \<and> \<not> is_test_name (path_basename h t)) (arg_tests a))
             @ '' is not a valid gyp test name.'' @ nl])"
proof (cases "startup_ok h a w")
  case False
  from main_startup_error [OF False]
  obtain e where m: "main h a w = (Raised e, snd (change_dir h a w))"
    by blast
  from False show ?thesis
    unfolding m by (simp add: startup_ok_def)
next
  case True
  let ?cwd = "w_cwd (snd (change_dir h a w))"
  have ne: "arg_tests a \<noteq> []"
    using assms(1) by auto
  have inv: "invalid_test_arg h ?cwd = (\<lambda>t. \<not> path_isdir h ?cwd t \<and> \<not> is_test_name (path_basename h t))"
    by (rule ext) (simp add: invalid_test_arg_def)
  have "filter (invalid_test_arg h ?cwd) (effective_tests a) \<noteq> []"
    unfolding filter_invalid_Nil effective_tests_explicit [OF ne] using assms by blast
  then obtain bad rest where f: "filter (invalid_test_arg h ?cwd) (effective_tests a) = bad # rest"
    by (cases "filter (invalid_test_arg h ?cwd) (effective_tests a)") auto
  have m: "main h a w =
      (SysExit 1, py_eprint [bad, ''is not a valid gyp test name.''] (after_startup h a w))"
    using True _ f by (rule main_bad_name) (simp add: ne)
  have hd: "hd (filter (\<lambda>t. \<not> path_isdir h ?cwd t \<and> \<not> is_test_name (path_basename h t))
      (arg_tests a)) = bad"
    using f unfolding inv effective_tests_explicit [OF ne] by simp
  from True show ?thesis
    unfolding m hd by (simp add: startup_ok_def)
qed


text \<open>Three arguments on the example host, the second and the third invalid.\<close>

theorem invalid_test_name_is_fatal_witness:
  "''foo.txt'' \<in> set (arg_tests (example_args\<lparr>arg_tests := [''gyptest_a.py'', ''foo.txt'', ''bar'']\<rparr>))
   \<and> \<not> path_isdir example_host
        (w_cwd (snd (change_dir example_host
           (example_args\<lparr>arg_tests := [''gyptest_a.py'', ''foo.txt'', ''bar'']\<rparr>) example_world)))
        ''foo.txt''
   \<and> \<not> is_test_name (path_basename example_host ''foo.txt'')
   \<and> fst (main example_host (example_args\<lparr>arg_tests := [''gyptest_a.py'', ''foo.txt'', ''bar'']\<rparr>)
        example_world) = SysExit 1
   \<and> w_stderr (snd (main example_host
        (example_args\<lparr>arg_tests := [''gyptest_a.py'', ''foo.txt'', ''bar'']\<rparr>) example_world))
        = [''foo.txt is not a valid gyp test name.'' @ nl]
   \<and> w_procs (snd (main example_host
        (example_args\<lparr>arg_tests := [''gyptest_a.py'', ''foo.txt'', ''bar'']\<rparr>) example_world)) = []
   \<and> w_stdout (snd (main example_host
        (example_args\<lparr>arg_tests := [''gyptest_a.py'', ''foo.txt'', ''bar'']\<rparr>) example_world)) = []"
proof -
  let ?A = "example_args\<lparr>arg_tests := [''gyptest_a.py'', ''foo.txt'', ''bar'']\<rparr>"
  have h1: "''foo.txt'' \<in> set (arg_tests ?A)"
    by simp
  have h2: "\<not> path_isdir example_host (w_cwd (snd (change_dir example_host ?A example_world))) ''foo.txt''"
    by (simp add: example_host_def)
  have h3: "\<not> is_test_name (path_basename example_host ''foo.txt'')"
    by code_simp
  have p: "arg_path ?A = []" "fst (change_dir example_host ?A example_world) = None"
    by (simp_all add: example_args_def change_dir_def)
  have f: "hd (filter (\<lambda>t. \<not> path_isdir example_host
        (w_cwd (snd (change_dir example_host ?A example_world))) t
        \<and> \<not> is_test_name (path_basename example_host t)) (arg_tests ?A)) = ''foo.txt''"
    by code_simp
  have w: "w_stderr example_world = []" "w_procs example_world = []" "w_stdout example_world = []"
    by (simp_all add: example_world_def)
  show ?thesis
    using invalid_test_name_is_fatal [OF h1 h2 h3] h1 h2 h3
    unfolding f w by (simp add: p)
qed

section \<open>The formats to run (C8)\<close>









section \<open>The exit status of main (C5)\<close>

lemma format_list_of_Inl:
  "format_list_of h a = Inl e \<longleftrightarrow>
     arg_format a = [] \<and> map_of platform_formats (sys_platform h) = None
     \<and> e = KeyError (sys_platform h)"
  by (auto simp: format_list_of_def split: option.splits)

text \<open>
  Claim C5, as amended.  The claim is about \<open>main\<close> from line 47 on, that is for
  arguments that \<open>argparse\<close> accepts, and about runs in which every child is started,
  its output is decoded and the output streams are written without an error.  In such
  a run \<open>main\<close> ends with an exception that nothing catches, so with exit status 1 and
  returning nothing, exactly in three cases: \<open>os.chdir\<close> raises \<open>OSError\<close> for the
  directory of \<open>--chdir\<close>; \<open>--path\<close> is given and \<open>PATH\<close> is not set (\<open>KeyError\<close>); it
  reaches line 84 with no \<open>--format\<close> on a platform that the table does not have
  (\<open>KeyError\<close>).  No child is started then.  In every other run the exit status is 1
  exactly when a child exited with a code other than 0 and 2, or no test was given
  without \<open>--all\<close>, or an entry of the list of tests (the positional arguments, or
  \<open>test\<close> when there is none and \<open>--all\<close> is given) is neither a directory nor a test
  name; otherwise it is 0.  In the two cases of an input error no child is started and
  exactly one message is written to standard error.
\<close>

theorem main_exit_status:
  "let ex = fst (main h a w);
       w1 = snd (main h a w);
       cwd = w_cwd (snd (change_dir h a w));
       new = drop (length (w_procs w)) (w_procs w1);
       chdir_error = (\<exists>d. arg_chdir a = Some d \<and> d \<noteq> [] \<and> os_chdir h (w_cwd w) d = None);
       path_error = (arg_path a \<noteq> [] \<and> map_of (w_environ w) ''PATH'' = None);
       failed = (\<exists>p \<in> set new. p_returncode p \<noteq> 0 \<and> p_returncode p \<noteq> 2);
       no_tests = (arg_tests a = [] \<and> \<not> arg_all a);
       bad_name = (\<exists>t \<in> set (effective_tests a).
                     \<not> path_isdir h cwd t \<and> \<not> is_test_name (path_basename h t))
   in ((\<exists>e. ex = Raised e) \<longleftrightarrow>
         chdir_error \<or> path_error \<or>
         (\<not> no_tests \<and> \<not> bad_name \<and> \<not> arg_list a \<and> arg_format a = []
            \<and> map_of platform_formats (sys_platform h) = None))
    \<and> ((\<exists>e. ex = Raised e) \<longrightarrow> new = [] \<and> exit_status ex = 1)
    \<and> ((\<forall>e. ex \<noteq> Raised e) \<longrightarrow>
          (exit_status ex = 1 \<longleftrightarrow> failed \<or> no_tests \<or> bad_name)
        \<and> (exit_status ex \<noteq> 1 \<longrightarrow> exit_status ex = 0)
        \<and> (no_tests \<or> bad_name \<longrightarrow>
              new = [] \<and> (\<exists>msg. w_stderr w1 = w_stderr w @ [msg])))"
proof -
  let ?cwd = "w_cwd (snd (change_dir h a w))"
  let ?no_tests = "arg_tests a = [] \<and> \<not> arg_all a"
  let ?bad = "\<exists>t \<in> set (effective_tests a).
      \<not> path_isdir h ?cwd t \<and> \<not> is_test_name (path_basename h t)"
  have ok: "\<not> (\<exists>d. arg_chdir a = Some d \<and> d \<noteq> [] \<and> os_chdir h (w_cwd w) d = None)"
      "\<not> (arg_path a \<noteq> [] \<and> map_of (w_environ w) ''PATH'' = None)"
    if "startup_ok h a w"
    using that unfolding startup_ok_def change_dir_returns by blast+
  consider (path) "\<not> startup_ok h a w"
    | (none) "startup_ok h a w" "?no_tests"
    | (bad) "startup_ok h a w" "\<not> ?no_tests" "?bad"
    | (list) "startup_ok h a w" "\<not> ?no_tests" "\<not> ?bad" "arg_list a"
    | (fmt) "startup_ok h a w" "\<not> ?no_tests" "\<not> ?bad" "\<not> arg_list a"
    by blast
  then show ?thesis
  proof cases
    case path
    from main_startup_error [OF path]
    obtain e where m: "main h a w = (Raised e, snd (change_dir h a w))"
      by blast
    from path have "(\<exists>d. arg_chdir a = Some d \<and> d \<noteq> [] \<and> os_chdir h (w_cwd w) d = None)
        \<or> (arg_path a \<noteq> [] \<and> map_of (w_environ w) ''PATH'' = None)"
      unfolding startup_ok_def change_dir_returns by auto
    then show ?thesis
      unfolding Let_def m by simp blast
  next
    case none
    then have m: "main h a w =
        (Return 1, stderr_write (''Specify -a to get all tests.'' @ nl) (after_startup h a w))"
      by (simp add: main_no_tests)
    from none show ?thesis
      unfolding Let_def m by (auto simp: ok)
  next
    case bad
    then have "filter (invalid_test_arg h ?cwd) (effective_tests a) \<noteq> []"
      unfolding filter_invalid_Nil by blast
    then obtain b rest where f: "filter (invalid_test_arg h ?cwd) (effective_tests a) = b # rest"
      by (cases "filter (invalid_test_arg h ?cwd) (effective_tests a)") auto
    have m: "main h a w =
        (SysExit 1, py_eprint [b, ''is not a valid gyp test name.''] (after_startup h a w))"
      using bad(1,2) f by (rule main_bad_name)
    from bad show ?thesis
      unfolding Let_def m by (auto simp: ok)
  next
    case list
    then have f: "filter (invalid_test_arg h ?cwd) (effective_tests a) = []"
      unfolding filter_invalid_Nil by blast
    from main_list [OF list(1,2) f list(4)] list show ?thesis
      unfolding Let_def by (auto simp: ok)
  next
    case fmt
    then have f: "filter (invalid_test_arg h ?cwd) (effective_tests a) = []"
      unfolding filter_invalid_Nil by blast
    from main_reaches_formats [OF fmt(1,2) f fmt(4)]
    obtain w5 where w5: "w_procs w5 = w_procs w" "w_stderr w5 = w_stderr w"
      and m: "main h a w =
       (case format_list_of h a of
          Inl e \<Rightarrow> (Raised e, w5)
        | Inr format_list \<Rightarrow>
            (let rw = run h (Runner_init h format_list
                        (collected_tests h ?cwd (effective_tests a))
                        (concat (map (\<lambda>option. [''-G'', option]) (arg_gyp_option a)))
                        (arg_verbose a) w5, w5)
             in (if failures (fst rw) \<noteq> [] then Return 1 else Return 0,
                 if \<not> arg_quiet a then print_results (fst rw) (snd rw) else snd rw)))"
      by blast
    show ?thesis
    proof (cases "format_list_of h a")
      case (Inl e)
      then have e: "arg_format a = []" "map_of platform_formats (sys_platform h) = None"
        by (simp_all add: format_list_of_Inl)
      from fmt e show ?thesis
        unfolding Let_def m Inl by (simp add: w5 ok)
    next
      case (Inr fl)
      then have ne: "\<not> (arg_format a = [] \<and> map_of platform_formats (sys_platform h) = None)"
        using format_list_of_Inl [of h a "KeyError (sys_platform h)"] by auto
      let ?rw = "run h (Runner_init h fl (collected_tests h ?cwd (effective_tests a))
          (concat (map (\<lambda>option. [''-G'', option]) (arg_gyp_option a))) (arg_verbose a) w5, w5)"
      have ex: "fst (main h a w) = (if failures (fst ?rw) \<noteq> [] then Return 1 else Return 0)"
        and pr: "w_procs (snd (main h a w)) = w_procs (snd ?rw)"
        unfolding m Inr by (simp_all add: Let_def)
      have fl: "failures (fst ?rw) \<noteq> [] \<longleftrightarrow>
          (\<exists>p \<in> set (drop (length (w_procs w)) (w_procs (snd (main h a w)))).
             p_returncode p \<noteq> 0 \<and> p_returncode p \<noteq> 2)"
        unfolding pr w5(1) [symmetric] by (rule run_children_failed)
      from fmt ne show ?thesis
        unfolding Let_def ex fl [symmetric] by (auto simp: ok)
    qed
  qed
qed


text \<open>
  The claim as stated fails twice.  With \<open>--all\<close>, no positional argument and no
  directory \<open>test\<close>, the exit status is 1 although no pair failed, \<open>--all\<close> was given and
  no test name was given on the command line.  On a platform that the table does not
  have, with a valid test name and no \<open>--format\<close>, \<open>main\<close> returns nothing: it ends with
  \<open>KeyError\<close>.
\<close>

theorem main_exit_status_counterexample:
  "exit_status (fst (main no_directory_host run_all_args example_world)) = 1
   \<and> w_procs (snd (main no_directory_host run_all_args example_world)) = []
   \<and> arg_all run_all_args
   \<and> arg_tests run_all_args = []
   \<and> fst (main sunos_host one_test_args example_world) = Raised (KeyError ''sunos5'')
   \<and> w_procs (snd (main sunos_host one_test_args example_world)) = []
   \<and> arg_tests one_test_args = [''gyptest_a.py'']
   \<and> is_test_name (path_basename sunos_host ''gyptest_a.py'')"
  by code_simp

lemma main_children_codes:
  assumes "startup_ok h a w" "\<not> (arg_tests a = [] \<and> \<not> arg_all a)"
    "filter (invalid_test_arg h (w_cwd (snd (change_dir h a w)))) (effective_tests a) = []"
    "\<not> arg_list a"
    and fl: "format_list_of h a = Inr fl"
    and c: "\<And>n cmd e p. fst (popen h n cmd e p) = c"
    and p: "p \<in> set (drop (length (w_procs w)) (w_procs (snd (main h a w))))"
  shows "p_returncode p = c"
proof -
  let ?ts = "collected_tests h (w_cwd (snd (change_dir h a w))) (effective_tests a)"
  let ?opts = "concat (map (\<lambda>option. [''-G'', option]) (arg_gyp_option a))"
  from main_reaches_formats [OF assms(1-4)] fl
  obtain w5 where w5: "w_procs w5 = w_procs w"
    and m: "w_procs (snd (main h a w)) =
      w_procs (snd (run h (Runner_init h fl ?ts ?opts (arg_verbose a) w5, w5)))"
    by (auto simp: Let_def)
  let ?R = "Runner_init h fl ?ts ?opts (arg_verbose a) w5"
  let ?new = "loop_children h (List.product ?ts fl) ?R (length (w_procs w5))"
  have "drop (length (w_procs w)) (w_procs (snd (main h a w))) = ?new"
    unfolding m run_procs by (simp add: w5)
  with p obtain k where k: "k < length (List.product ?ts fl)" "p = ?new ! k"
    by (auto simp: in_set_conv_nth)
  from loop_children_nth [OF k(1), of h ?R "length (w_procs w5)"] c
  show ?thesis
    unfolding k(2) by simp
qed

text \<open>No test and no \<open>--all\<close> on the example host; one test under two formats, both
  skipped; \<open>--chdir\<close> to a directory that does not exist.\<close>

theorem main_exit_status_witness:
  "exit_status (fst (main example_host example_args example_world)) = 1
   \<and> w_procs (snd (main example_host example_args example_world)) = []
   \<and> (\<exists>msg. w_stderr (snd (main example_host example_args example_world)) = [msg])
   \<and> exit_status (fst (main skipping_host one_test_args example_world)) = 0
   \<and> (\<exists>e. fst (main example_host missing_dir_args example_world) = Raised e)
   \<and> exit_status (fst (main example_host missing_dir_args example_world)) = 1
   \<and> w_procs (snd (main example_host missing_dir_args example_world)) = []"
proof -
  have w: "w_procs example_world = []" "w_stderr example_world = []"
    "map_of (w_environ example_world) ''PATH'' = Some ''/bin''"
    by (simp_all add: example_world_def)
  have a: "arg_tests example_args = []" "\<not> arg_all example_args" "arg_path example_args = []"
    "arg_tests one_test_args = [''gyptest_a.py'']" "arg_path one_test_args = []"
    "arg_format one_test_args = []" "\<not> arg_list one_test_args"
    "arg_chdir example_args = None" "arg_chdir one_test_args = None"
    by (simp_all add: example_args_def one_test_args_def)
  have d: "arg_chdir missing_dir_args = Some ''/nonexistent''"
    "os_chdir example_host (w_cwd example_world) ''/nonexistent'' = None"
    by (simp_all add: missing_dir_args_def example_host_def)
  have p: "map_of platform_formats (sys_platform skipping_host) = Some [''make'', ''ninja'']"
    by (simp add: platform_formats_def skipping_host_def example_host_def)
  have b: "\<not> (\<exists>t \<in> set (effective_tests one_test_args).
      \<not> path_isdir skipping_host (w_cwd (snd (change_dir skipping_host one_test_args example_world))) t
      \<and> \<not> is_test_name (path_basename skipping_host t))"
    by code_simp
  have pre: "startup_ok skipping_host one_test_args example_world"
    "\<not> (arg_tests one_test_args = [] \<and> \<not> arg_all one_test_args)"
    "filter (invalid_test_arg skipping_host
        (w_cwd (snd (change_dir skipping_host one_test_args example_world))))
        (effective_tests one_test_args) = []"
    "\<not> arg_list one_test_args"
    using b by (simp_all add: startup_ok_def change_dir_none a filter_invalid_Nil)
  have fl: "format_list_of skipping_host one_test_args = Inr [''make'', ''ninja'']"
    by (simp add: format_list_of_def a p)
  have c: "fst (popen skipping_host n cmd e q) = 2" for n cmd e q
    by (simp add: skipping_host_def)
  have nf: "\<not> (\<exists>p \<in> set (drop (length (w_procs example_world))
        (w_procs (snd (main skipping_host one_test_args example_world)))).
      p_returncode p \<noteq> 0 \<and> p_returncode p \<noteq> 2)"
    using main_children_codes [OF pre fl c] by blast
  have one: "exit_status (fst (main example_host example_args example_world)) = 1
   \<and> w_procs (snd (main example_host example_args example_world)) = []
   \<and> (\<exists>msg. w_stderr (snd (main example_host example_args example_world)) = [msg])"
    using main_exit_status [of example_host example_args example_world]
    unfolding Let_def by (simp add: w a)
  have two: "exit_status (fst (main skipping_host one_test_args example_world)) = 0"
    using main_exit_status [of skipping_host one_test_args example_world] nf b
    unfolding Let_def by (simp add: w a p)
  have three: "(\<exists>e. fst (main example_host missing_dir_args example_world) = Raised e)
   \<and> exit_status (fst (main example_host missing_dir_args example_world)) = 1
   \<and> w_procs (snd (main example_host missing_dir_args example_world)) = []"
    using main_exit_status [of example_host missing_dir_args example_world]
    unfolding Let_def by (simp add: w d)
  show ?thesis
    using one two three by simp
qed

section \<open>The no-execute flag (C4)\<close>

text \<open>
  Claim C4 does not hold of the code.  \<open>--no-exec\<close> is declared with the help text
  \<open>no execute, just print the command line\<close>, but \<open>main\<close> never reads
  \<open>args.no_exec\<close> (lemma \<open>no_exec_is_ignored\<close>).  On the example host, with
  \<open>-n -f make gyptest_a.py\<close>, \<open>main\<close> does exactly what it does without \<open>-n\<close>: it
  starts the child \<open>/usr/bin/python gyptest_a.py\<close>.
\<close>

theorem no_exec_flag_still_runs_the_child:
  "arg_no_exec no_exec_args
   \<and> main example_host no_exec_args example_world =
       main example_host (no_exec_args\<lparr>arg_no_exec := False\<rparr>) example_world
   \<and> (\<exists>p. w_procs (snd (main example_host no_exec_args example_world)) = [p]
          \<and> p_cmd p = [''/usr/bin/python'', ''gyptest_a.py''])"
proof -
  let ?A = "no_exec_args\<lparr>arg_no_exec := False\<rparr>"
  let ?cwd = "w_cwd (snd (change_dir example_host ?A example_world))"
  have same: "main example_host no_exec_args example_world = main example_host ?A example_world"
    using no_exec_is_ignored [where h = example_host and a = no_exec_args and b = False
        and w = example_world] by simp
  have a: "arg_tests ?A = [''gyptest_a.py'']" "arg_path ?A = []" "\<not> arg_list ?A"
    "arg_format ?A = ''make''" "arg_gyp_option ?A = []" "arg_chdir ?A = None"
    by (simp_all add: no_exec_args_def example_args_def)
  have ok: "\<not> invalid_test_arg example_host ?cwd ''gyptest_a.py''"
    by code_simp
  have nd: "\<not> path_isdir example_host ?cwd ''gyptest_a.py''"
    by (simp add: example_host_def)
  have pre: "startup_ok example_host ?A example_world"
    "\<not> (arg_tests ?A = [] \<and> \<not> arg_all ?A)"
    "filter (invalid_test_arg example_host ?cwd) (effective_tests ?A) = []"
    "\<not> arg_list ?A"
    using ok by (simp_all add: startup_ok_def change_dir_none a effective_tests_def)
  have fl: "format_list_of example_host ?A = Inr [''make'']"
    by (simp add: format_list_of_def a)
  have ts: "collected_tests example_host ?cwd (effective_tests ?A) = [''gyptest_a.py'']"
    using nd by (simp add: collected_tests_def effective_tests_def a)
  from main_reaches_formats [OF pre] fl
  obtain w5 where w5: "w_procs w5 = w_procs example_world"
    and m: "w_procs (snd (main example_host ?A example_world)) =
      w_procs (snd (run example_host
        (Runner_init example_host [''make''] [''gyptest_a.py''] [] (arg_verbose ?A) w5, w5)))"
    by (auto simp: Let_def ts a)
  from run_pairs_in_order [of example_host "[''make'']" "[''gyptest_a.py'']" "[]"
      "arg_verbose ?A" w5]
  obtain new where new: "length new = 1"
    "w_procs (snd (run example_host
        (Runner_init example_host [''make''] [''gyptest_a.py''] [] (arg_verbose ?A) w5, w5)))
      = w_procs w5 @ new"
    "p_cmd (new ! 0) = [sys_executable example_host, ''gyptest_a.py'']"
    unfolding Let_def by auto
  from new(1) obtain p where p: "new = [p]"
    by (cases new) auto
  have w: "w_procs example_world = []" "sys_executable example_host = ''/usr/bin/python''"
    by (simp_all add: example_world_def example_host_def)
  have "w_procs (snd (main example_host ?A example_world)) = [p]
      \<and> p_cmd p = [''/usr/bin/python'', ''gyptest_a.py'']"
    using new(2,3) unfolding m p w5 w by simp
  then show ?thesis
    unfolding same by (auto simp: no_exec_args_def)
qed

section \<open>Test discovery (C7)\<close>

lemma tree_walk_in_tree:
  "(d, ds, files) \<in> set (tree_walk join base tree) \<Longrightarrow> f \<in> set files \<Longrightarrow> in_tree join base tree d f"
proof (induction join base tree arbitrary: d ds files rule: tree_walk.induct)
  case (1 join base fs subs)
  from "1.prems"(1) consider "(d, ds, files) = (base, map fst subs, fs)"
    | x where "x \<in> set subs" "(d, ds, files) \<in> set (tree_walk join (join base (fst x)) (snd x))"
    by auto
  then show ?case
  proof cases
    case 1
    with "1.prems"(2) show ?thesis by (auto intro: in_tree.here)
  next
    case 2
    from "1.IH" [OF 2(1) 2(2) "1.prems"(2)]
    have "in_tree join (join base (fst x)) (snd x) d f" .
    moreover have "(fst x, snd x) \<in> set subs" using 2(1) by simp
    ultimately show ?thesis by (rule in_tree.below [rotated])
  qed
qed

lemma in_tree_tree_walk:
  "in_tree join base tree d f \<Longrightarrow> \<exists>ds files. (d, ds, files) \<in> set (tree_walk join base tree) \<and> f \<in> set files"
proof (induction rule: in_tree.induct)
  case (here f fs base subs)
  then show ?case by auto
next
  case (below n t subs base d f fs)
  then obtain ds files where "(d, ds, files) \<in> set (tree_walk join (join base n) t)" "f \<in> set files"
    by blast
  with below.hyps(1) show ?case
    by (intro exI [of _ ds] exI [of _ files]) force
qed

lemma found_files_mset:
  "mset xs = mset ys \<Longrightarrow> mset (concat (map g xs)) = mset (concat (map g ys))"
proof -
  assume a: "mset xs = mset ys"
  have "mset (concat (map g zs)) = (\<Sum>x\<in>#mset zs. mset (g x))" for zs :: "'a list"
    by (induction zs) simp_all
  then show ?thesis using a by simp
qed

text \<open>
  Claim C7.  When \<open>os.walk\<close> lists the directories of a tree, in whatever order,
  \<open>find_all_gyptest_files\<close> returns a sorted list whose elements are exactly the
  paths \<open>join(d, f)\<close> of the files \<open>f\<close> of the tree, \<open>d\<close> being the directory that
  holds \<open>f\<close>, whose name starts with \<open>gyptest\<close> and ends with \<open>.py\<close> (the characters
  are compared as they are), each as often as the tree has it.  The result does not
  depend on the order of the listing: two calls that see the same directories return the
  same list.
\<close>

theorem discovery_finds_exactly_the_tests:
  assumes "mset (os_walk h cwd directory) = mset (tree_walk (path_join h) directory tree)"
  shows "sorted (find_all_gyptest_files h cwd directory)
     \<and> set (find_all_gyptest_files h cwd directory) =
         {path_join h d f | d f.
            in_tree (path_join h) directory tree d f \<and> prefix ''gyptest'' f \<and> suffix ''.py'' f}
     \<and> mset (find_all_gyptest_files h cwd directory) =
         mset (concat (map (\<lambda>(d, ds, files). map (path_join h d) (filter is_test_name files))
                        (tree_walk (path_join h) directory tree)))
     \<and> (\<forall>(h'::host) cwd'. path_join h' = path_join h
           \<and> mset (os_walk h' cwd' directory) = mset (os_walk h cwd directory) \<longrightarrow>
           find_all_gyptest_files h' cwd' directory = find_all_gyptest_files h cwd directory)"
proof (intro conjI allI impI)
  let ?g = "\<lambda>(d, ds, files). map (path_join h d) (filter is_test_name files)"
  show "sorted (find_all_gyptest_files h cwd directory)"
    by (simp add: find_all_gyptest_files_def)
  have s: "set (os_walk h cwd directory) = set (tree_walk (path_join h) directory tree)"
    using assms by (rule mset_eq_setD)
  show "set (find_all_gyptest_files h cwd directory) =
         {path_join h d f | d f.
            in_tree (path_join h) directory tree d f \<and> prefix ''gyptest'' f \<and> suffix ''.py'' f}"
  proof (intro set_eqI iffI)
    fix p assume "p \<in> set (find_all_gyptest_files h cwd directory)"
    then obtain d ds files f where "(d, ds, files) \<in> set (tree_walk (path_join h) directory tree)"
      "f \<in> set files" "is_test_name f" "p = path_join h d f"
      unfolding find_all_gyptest_files_def s [symmetric] by auto
    then show "p \<in> {path_join h d f | d f.
            in_tree (path_join h) directory tree d f \<and> prefix ''gyptest'' f \<and> suffix ''.py'' f}"
      using tree_walk_in_tree [of d ds files "path_join h" directory tree f]
      by (auto simp: is_test_name_def)
  next
    fix p assume "p \<in> {path_join h d f | d f.
            in_tree (path_join h) directory tree d f \<and> prefix ''gyptest'' f \<and> suffix ''.py'' f}"
    then obtain d f where df: "in_tree (path_join h) directory tree d f" "is_test_name f"
      "p = path_join h d f"
      by (auto simp: is_test_name_def)
    from in_tree_tree_walk [OF df(1)] obtain ds files
      where "(d, ds, files) \<in> set (os_walk h cwd directory)" "f \<in> set files"
      unfolding s by blast
    with df(2,3) show "p \<in> set (find_all_gyptest_files h cwd directory)"
      unfolding find_all_gyptest_files_def by force
  qed
  show "mset (find_all_gyptest_files h cwd directory) =
      mset (concat (map ?g (tree_walk (path_join h) directory tree)))"
    unfolding find_all_gyptest_files_def mset_sort using assms by (rule found_files_mset)
next
  fix h' :: host and cwd'
  assume a: "path_join h' = path_join h
           \<and> mset (os_walk h' cwd' directory) = mset (os_walk h cwd directory)"
  then have "mset (concat (map (\<lambda>(root, dirs, files). map (path_join h root) (filter is_test_name files))
                 (os_walk h' cwd' directory)))
      = mset (concat (map (\<lambda>(root, dirs, files). map (path_join h root) (filter is_test_name files))
                 (os_walk h cwd directory)))"
    by (intro found_files_mset) simp
  then show "find_all_gyptest_files h' cwd' directory = find_all_gyptest_files h cwd directory"
    unfolding find_all_gyptest_files_def using a
    by (simp add: properties_for_sort)
qed


text \<open>The example tree: of its eight files four are tests; \<open>Gyptest-c.py\<close>,
  \<open>mygyptest.py\<close> and \<open>gyptest-b.pyc\<close> are not.\<close>

theorem discovery_finds_exactly_the_tests_witness:
  "mset (os_walk example_host ''/src'' ''test'') =
     mset (tree_walk (path_join example_host) ''test'' example_tree)
   \<and> find_all_gyptest_files example_host ''/src'' ''test'' =
       [''test/gyptest-top.py'', ''test/lib/deep/gyptest.py'', ''test/lib/gyptest-a.py'',
        ''test/sub/gyptest-b.py'']
   \<and> sorted (find_all_gyptest_files example_host ''/src'' ''test'')
   \<and> set (find_all_gyptest_files example_host ''/src'' ''test'') =
         {path_join example_host d f | d f.
            in_tree (path_join example_host) ''test'' example_tree d f
            \<and> prefix ''gyptest'' f \<and> suffix ''.py'' f}"
proof -
  have h: "mset (os_walk example_host ''/src'' ''test'') =
      mset (tree_walk (path_join example_host) ''test'' example_tree)"
    by (simp add: example_host_def)
  have e: "find_all_gyptest_files example_host ''/src'' ''test'' =
       [''test/gyptest-top.py'', ''test/lib/deep/gyptest.py'', ''test/lib/gyptest-a.py'',
        ''test/sub/gyptest-b.py'']"
    by code_simp
  from discovery_finds_exactly_the_tests [OF h] h e show ?thesis
    by blast
qed

end
